theory Spec2Isabelle
  imports Complex_Main "HOL-Library.Word"
begin

unbundle bit_operations_syntax

section \<open>Values and faults\<close>

text \<open>
  A captured frame is a Python \<open>bytes\<close> value: a list of 8-bit words. Reading one
  element (\<open>s[i]\<close>) gives a Python integer in 0..255; every integer the dissector
  computes is an unsigned header field, so Python integers are natural numbers here.
  Where the source subtracts (\<open>header_len - 5\<close>, \<open>8 + length - 8\<close>) the
  subtraction is guarded or cancels, and is written so below.
\<close>

type_synonym byte = "8 word"
type_synonym bytes = "byte list"

text \<open>
  The exceptions the module can meet. All of them derive from Python's \<open>Exception\<close>,
  so an \<open>except Exception\<close> clause catches each one. \<open>DecodingError\<close> and
  \<open>OtherError\<close> stand for what a codec of the protocol stack raises.
\<close>

datatype exn =
    IndexError
  | StructError
  | OSError
  | UnboundLocalError
  | AttributeError
  | TypeError
  | RuntimeError
  | DecodingError
  | OtherError string

definition bnd :: "'e + 'a \<Rightarrow> ('a \<Rightarrow> 'e + 'b) \<Rightarrow> 'e + 'b" where
  "bnd m f = (case m of Inl e \<Rightarrow> Inl e | Inr x \<Rightarrow> f x)"

text \<open>\<open>s[i]\<close> for a non-negative index: IndexError out of range.\<close>

definition byte_at :: "bytes \<Rightarrow> nat \<Rightarrow> exn + nat" where
  "byte_at s i = (if i < length s then Inr (unat (s ! i)) else Inl IndexError)"

text \<open>\<open>s[i:j]\<close> and \<open>s[i:]\<close> for non-negative bounds: a slice never raises.\<close>

definition slice :: "'a list \<Rightarrow> nat \<Rightarrow> nat \<Rightarrow> 'a list" where
  "slice s i j = take (j - i) (drop i s)"

definition slice_from :: "'a list \<Rightarrow> nat \<Rightarrow> 'a list" where
  "slice_from s i = drop i s"

text \<open>
  \<open>struct.unpack("!H", b)[0]\<close>: a big-endian unsigned 16-bit value; struct.error
  unless \<open>b\<close> has exactly two bytes.
\<close>

definition unpack_H :: "bytes \<Rightarrow> exn + nat" where
  "unpack_H b = (case b of [hi, lo] \<Rightarrow> Inr (256 * unat hi + unat lo) | _ \<Rightarrow> Inl StructError)"

definition hex_digit :: "nat \<Rightarrow> char" where
  "hex_digit n = ''0123456789abcdef'' ! (n mod 16)"

definition hex2 :: "nat \<Rightarrow> string" where
  "hex2 n = [hex_digit (n div 16), hex_digit n]"

text \<open>
  \<open>btox(data, sep)\<close> of the debugging module: the bytes in hexadecimal, two digits
  each, joined by the separator.
\<close>

fun btox :: "bytes \<Rightarrow> string \<Rightarrow> string" where
  "btox [] sep = []"
| "btox [b] sep = hex2 (unat b)"
| "btox (b # bs) sep = hex2 (unat b) @ sep @ btox bs sep"

definition dec_digit :: "nat \<Rightarrow> char" where
  "dec_digit n = ''0123456789'' ! (n mod 10)"

text \<open>The decimal text of a value below 1000 (a byte, in every use).\<close>

definition dec_str :: "nat \<Rightarrow> string" where
  "dec_str n =
     (if n < 10 then [dec_digit n]
      else if n < 100 then [dec_digit (n div 10), dec_digit n]
      else [dec_digit (n div 100), dec_digit (n div 10), dec_digit n])"

text \<open>\<open>socket.inet_ntoa\<close>: dotted-quad text of exactly four bytes, OSError otherwise.\<close>

definition inet_ntoa :: "bytes \<Rightarrow> exn + string" where
  "inet_ntoa b =
     (case b of
        [a, b, c, d] \<Rightarrow>
          Inr (dec_str (unat a) @ ''.'' @ dec_str (unat b) @ ''.'' @
               dec_str (unat c) @ ''.'' @ dec_str (unat d))
      | _ \<Rightarrow> Inl OSError)"

text \<open>
  \<open>_protocols.get(n, "0x%.2x ?" % n)\<close> with the module's table
  (IPPROTO_TCP = 6, IPPROTO_UDP = 17, IPPROTO_ICMP = 1).
\<close>

definition protocol_name :: "nat \<Rightarrow> string" where
  "protocol_name n =
     (if n = 6 then ''tcp''
      else if n = 17 then ''udp''
      else if n = 1 then ''icmp''
      else ''0x'' @ hex2 n @ '' ?'')"

section \<open>Frame peeling\<close>

text \<open>Each decoder returns a dictionary with fixed keys: a record, one field per key.\<close>

record ethernet =
  eth_destination_address :: string
  eth_source_address :: string
  eth_type :: nat
  eth_data :: bytes

definition decode_ethernet :: "bytes \<Rightarrow> exn + ethernet" where
  "decode_ethernet s =
     bnd (unpack_H (slice s 12 14)) (\<lambda>t.
       Inr \<lparr> eth_destination_address = btox (slice s 0 6) '':'',
             eth_source_address = btox (slice s 6 12) '':'',
             eth_type = t,
             eth_data = slice_from s 14 \<rparr>)"

record vlan =
  vlan_priority :: nat
  vlan_cfi :: nat
  vlan_vlan :: nat
  vlan_type :: nat
  vlan_data :: bytes

definition decode_vlan :: "bytes \<Rightarrow> exn + vlan" where
  "decode_vlan s =
     bnd (unpack_H (slice s 0 2)) (\<lambda>x.
     bnd (unpack_H (slice s 2 4)) (\<lambda>t.
       Inr \<lparr> vlan_priority = (drop_bit 13 x) AND 0x07,
             vlan_cfi = (drop_bit 12 x) AND 0x01,
             vlan_vlan = x AND 0x0FFF,
             vlan_type = t,
             vlan_data = slice_from s 4 \<rparr>))"

record ip =
  ip_version :: nat
  ip_header_len :: nat
  ip_tos :: nat
  ip_total_len :: nat
  ip_id :: nat
  ip_flags :: nat
  ip_fragment_offset :: nat
  ip_ttl :: nat
  ip_protocol :: string
  ip_checksum :: nat
  ip_source_address :: string
  ip_destination_address :: string
  ip_options :: "bytes option"
  ip_data :: bytes

definition decode_ip :: "bytes \<Rightarrow> exn + ip" where
  "decode_ip s =
     bnd (byte_at s 0) (\<lambda>b0.
     bnd (byte_at s 1) (\<lambda>b1.
     bnd (unpack_H (slice s 2 4)) (\<lambda>total.
     bnd (unpack_H (slice s 4 6)) (\<lambda>ident.
     bnd (byte_at s 6) (\<lambda>b6.
     bnd (unpack_H (slice s 6 8)) (\<lambda>frag.
     bnd (byte_at s 8) (\<lambda>b8.
     bnd (byte_at s 9) (\<lambda>b9.
     bnd (unpack_H (slice s 10 12)) (\<lambda>csum.
     bnd (inet_ntoa (slice s 12 16)) (\<lambda>src.
     bnd (inet_ntoa (slice s 16 20)) (\<lambda>dst.
       let header_len = b0 AND 0x0F in
       Inr \<lparr> ip_version = drop_bit 4 (b0 AND 0xF0),
             ip_header_len = header_len,
             ip_tos = b1,
             ip_total_len = total,
             ip_id = ident,
             ip_flags = drop_bit 5 (b6 AND 0xE0),
             ip_fragment_offset = frag AND 0x1F,
             ip_ttl = b8,
             ip_protocol = protocol_name b9,
             ip_checksum = csum,
             ip_source_address = src,
             ip_destination_address = dst,
             ip_options =
               (if header_len > 5 then Some (slice s 20 (4 * (header_len - 5))) else None),
             ip_data = slice_from s (4 * header_len) \<rparr>)))))))))))"

record udp =
  udp_source_port :: nat
  udp_destination_port :: nat
  udp_length :: nat
  udp_checksum :: nat
  udp_data :: bytes

text \<open>The payload slice \<open>s[8 : 8 + length - 8]\<close> ends at offset \<open>length\<close>.\<close>

definition decode_udp :: "bytes \<Rightarrow> exn + udp" where
  "decode_udp s =
     bnd (unpack_H (slice s 0 2)) (\<lambda>sp.
     bnd (unpack_H (slice s 2 4)) (\<lambda>dp.
     bnd (unpack_H (slice s 4 6)) (\<lambda>len.
     bnd (unpack_H (slice s 6 8)) (\<lambda>csum.
       Inr \<lparr> udp_source_port = sp,
             udp_destination_port = dp,
             udp_length = len,
             udp_checksum = csum,
             udp_data = slice s 8 (8 + len - 8) \<rparr>))))"

section \<open>Addresses and protocol data units\<close>

text \<open>
  The \<open>Address\<close> class lives in the \<open>pdu\<close> module; the dissector only constructs
  it (from a MAC string or from a host and port pair), copies it, and sets its
  \<open>addrRoute\<close> attribute. An address is therefore the argument it was built from
  and its route annotation; constructing one does not raise. \<open>AddrDecoded\<close> is an
  address a codec built from packet bytes. For a non-UDP IPv4 frame the source keeps
  the dotted-quad \<open>str\<close> itself as source and destination, hence the two kinds of
  endpoint.
\<close>

datatype addr_arg =
    AddrStr string
  | AddrHostPort string nat
  | AddrDecoded bytes

datatype address = Address addr_arg "endpoint option"
  and endpoint = Str string | Addr address

fun addrRoute :: "address \<Rightarrow> endpoint option" where
  "addrRoute (Address a r) = r"

text \<open>The assignment \<open>a.addrRoute = r\<close>.\<close>

fun set_addrRoute :: "address \<Rightarrow> endpoint option \<Rightarrow> address" where
  "set_addrRoute (Address a old) r = Address a r"

record PDU =
  pduData :: bytes
  pduSource :: "endpoint option"
  pduDestination :: "endpoint option"

text \<open>
  The virtual-link functions the dissector names, and any other registered one.
\<close>

datatype bvll_type =
    ForwardedNPDU
  | DistributeBroadcastToNetwork
  | OriginalUnicastNPDU
  | OriginalBroadcastNPDU
  | OtherBVLL nat

record LPDU = PDU +
  bvlciFunction :: nat
  bvlciAddress :: "address option"

record NPDU = PDU +
  npduNetMessage :: "nat option"
  npduSADR :: "address option"
  npduDADR :: "address option"

datatype apdu_class =
    ConfirmedRequestPDU
  | UnconfirmedRequestPDU
  | ComplexAckPDU
  | OtherAPDU nat

record APDU = PDU +
  apduClass :: apdu_class
  apduSequence :: bool

text \<open>
  \<open>decode_lpdu\<close> returns the PDU it was given or a link-layer record, and
  \<open>decode_npdu\<close> accepts either: the type \<open>link\<close>. \<open>decode_packet\<close> returns
  "some kind of PDU": one of those two, an NPDU or an APDU.
\<close>

datatype link =
    PDU_obj PDU
  | LPDU_obj LPDU

datatype packet =
    Link_obj link
  | NPDU_obj NPDU
  | APDU_obj APDU

fun link_data :: "link \<Rightarrow> bytes" where
  "link_data (PDU_obj p) = pduData p"
| "link_data (LPDU_obj l) = pduData l"

text \<open>The link object with its payload replaced: \<open>k.pduData = s\<close>.\<close>

fun set_link_data :: "link \<Rightarrow> bytes \<Rightarrow> link" where
  "set_link_data (PDU_obj p) s = PDU_obj (p\<lparr>pduData := s\<rparr>)"
| "set_link_data (LPDU_obj l) s = LPDU_obj (l\<lparr>pduData := s\<rparr>)"

fun link_source :: "link \<Rightarrow> endpoint option" where
  "link_source (PDU_obj p) = pduSource p"
| "link_source (LPDU_obj l) = pduSource l"

fun link_destination :: "link \<Rightarrow> endpoint option" where
  "link_destination (PDU_obj p) = pduDestination p"
| "link_destination (LPDU_obj l) = pduDestination l"

text \<open>
  The codecs of the protocol stack (modules \<open>ipv4.bvll\<close>, \<open>npdu\<close>, \<open>apdu\<close>)
  are outside this module, so each is a parameter. A decode reads the payload of the
  object it is given and removes what it reads from that object, also when it then
  raises; it answers with a new object or with the exception. A decode is therefore a
  function from the object to a pair: the payload bytes left in the object after the
  call, and the new object or the exception. The new object shares no payload with the
  old one. The two registries \<open>bvll_pdu_types\<close> and \<open>npdu_types\<close> are lookups
  from a code to a registered class, and \<open>bvll_new t\<close> is the constructor call
  \<open>atype()\<close> with no argument. Objects of the stack's classes are truthy (the
  classes define no length and no boolean conversion), and \<open>!=\<close> on them is object
  identity.
\<close>

record codec =
  LPDU_decode :: "PDU \<Rightarrow> bytes \<times> (exn + LPDU)"
  bvll_pdu_types :: "nat \<Rightarrow> bvll_type option"
  bvll_new :: "bvll_type \<Rightarrow> exn + LPDU"
  bvll_decode :: "bvll_type \<Rightarrow> LPDU \<Rightarrow> bytes \<times> (exn + LPDU)"
  NPDU_decode :: "link \<Rightarrow> bytes \<times> (exn + NPDU)"
  npdu_types :: "nat \<Rightarrow> nat option"
  ntype_decode :: "nat \<Rightarrow> NPDU \<Rightarrow> bytes \<times> (exn + NPDU)"
  APDU_decode :: "NPDU \<Rightarrow> bytes \<times> (exn + APDU)"
  APCISequence_decode :: "APDU \<Rightarrow> bytes \<times> (exn + APDU)"

section \<open>The layer decoders\<close>

text \<open>
  \<open>decode_lpdu\<close> returns the pair \<open>(lpdu, bpdu)\<close>, and it changes the PDU object
  it is given, through \<open>LPDU.decode\<close>. The model returns three things: that PDU
  object as the call leaves it, then \<open>lpdu\<close> and \<open>bpdu\<close>. \<open>lpdu\<close> is that same
  PDU object (\<open>PDU_obj\<close>) or a new link-layer record (\<open>LPDU_obj\<close>); \<open>xpdu\<close> is
  the structural record, which the function-specific decode reads from. The flag
  \<open>route_aware\<close> is \<open>settings.route_aware\<close>. In the forwarded case the address
  object of \<open>bpdu\<close> becomes the source of \<open>lpdu\<close> and then receives the route
  annotation: both objects see it, so both are updated.
\<close>

definition decode_lpdu ::
  "codec \<Rightarrow> bool \<Rightarrow> PDU \<Rightarrow> exn + (PDU \<times> link \<times> LPDU option)" where
  "decode_lpdu c route_aware p =
     bnd (byte_at (pduData p) 0) (\<lambda>b0.
       if b0 \<noteq> 0x81 then Inr (p, PDU_obj p, None)
       else
         (case LPDU_decode c p of
            (left, r) \<Rightarrow>
              (let p' = p\<lparr>pduData := left\<rparr> in
               case r of
                 Inl err \<Rightarrow> Inr (p', PDU_obj p', None)
               | Inr l \<Rightarrow>
                   (case bvll_pdu_types c (bvlciFunction l) of
                      None \<Rightarrow> Inr (p', LPDU_obj l, None)
                    | Some atype \<Rightarrow>
                        (case bvll_new c atype of
                           Inl err \<Rightarrow> Inr (p', LPDU_obj l, None)
                         | Inr bpdu \<Rightarrow>
                             (case bvll_decode c atype l of
                                (left', r') \<Rightarrow>
                                  (let xpdu = l\<lparr>pduData := left'\<rparr> in
                                   case r' of
                                     Inl err \<Rightarrow> Inr (p', LPDU_obj xpdu, None)
                                   | Inr l' \<Rightarrow>
                                       if atype = ForwardedNPDU then
                                         (let old_pdu_source = pduSource l' in
                                          if route_aware \<and> bvlciAddress bpdu \<noteq> None then
                                            (let a = set_addrRoute (the (bvlciAddress bpdu))
                                                       old_pdu_source
                                             in Inr (p',
                                                     LPDU_obj (l'\<lparr>pduSource := Some (Addr a)\<rparr>),
                                                     Some (bpdu\<lparr>bvlciAddress := Some a\<rparr>)))
                                          else Inr (p', LPDU_obj l', Some bpdu))
                                       else if atype \<notin> {DistributeBroadcastToNetwork,
                                                          OriginalUnicastNPDU,
                                                          OriginalBroadcastNPDU}
                                       then Inr (p', LPDU_obj l', Some bpdu)
                                       else Inr (p', LPDU_obj l', Some bpdu))))))))"

text \<open>
  \<open>decode_npdu\<close> returns the NPDU or \<open>None\<close>, and it changes the object it is
  given, through \<open>NPDU.decode\<close>: the model returns that object as the call leaves it,
  and the result.
\<close>

definition decode_npdu :: "codec \<Rightarrow> link \<Rightarrow> exn + (link \<times> NPDU option)" where
  "decode_npdu c p =
     bnd (byte_at (link_data p) 0) (\<lambda>b0.
       if b0 \<noteq> 0x01 then Inr (p, None)
       else
         (case NPDU_decode c p of
            (left, r) \<Rightarrow>
              (let p' = set_link_data p left in
               case r of
                 Inl err \<Rightarrow> Inr (p', None)
               | Inr n \<Rightarrow>
                   (case npduNetMessage n of
                      None \<Rightarrow> Inr (p', Some n)
                    | Some m \<Rightarrow>
                        (case npdu_types c m of
                           None \<Rightarrow> Inr (p', Some n)
                         | Some ntype \<Rightarrow>
                             (case ntype_decode c ntype n of
                                (left', r') \<Rightarrow>
                                  (case r' of
                                     Inl err \<Rightarrow> Inr (p', Some (n\<lparr>pduData := left'\<rparr>))
                                   | Inr n' \<Rightarrow> Inr (p', Some n'))))))))"

text \<open>
  \<open>decode_apdu\<close> returns the APDU or \<open>None\<close>, and it changes the NPDU it is
  given: \<open>APDU.decode\<close> reads from it, and with route-aware mode on the route
  annotation is set on the address object that is \<open>npdu.npduSADR\<close>. The model
  returns the NPDU as the call leaves it, and the result. Only an AttributeError of the
  service-sequence decode is caught.
\<close>

definition decode_apdu :: "codec \<Rightarrow> bool \<Rightarrow> NPDU \<Rightarrow> exn + (NPDU \<times> APDU option)" where
  "decode_apdu c route_aware n =
     (if npduNetMessage n \<noteq> None then Inr (n, None)
      else
        (case APDU_decode c n of
           (left, r) \<Rightarrow>
             (let n0 = n\<lparr>pduData := left\<rparr> in
              case r of
                Inl err \<Rightarrow> Inr (n0, None)
              | Inr a \<Rightarrow>
                  (let (n1, a1) =
                         (case npduSADR n0 of
                            Some sadr \<Rightarrow>
                              if route_aware then
                                (let sadr' = set_addrRoute sadr (pduSource n0) in
                                 (n0\<lparr>npduSADR := Some sadr'\<rparr>,
                                  a\<lparr>pduSource := Some (Addr sadr')\<rparr>))
                              else (n0, a\<lparr>pduSource := Some (Addr sadr)\<rparr>)
                          | None \<Rightarrow> (n0, a\<lparr>pduSource := pduSource n0\<rparr>));
                       a2 =
                         (case npduDADR n0 of
                            Some dadr \<Rightarrow> a1\<lparr>pduDestination := Some (Addr dadr)\<rparr>
                          | None \<Rightarrow> a1\<lparr>pduDestination := pduDestination n0\<rparr>)
                   in
                     if apduClass a2 \<in> {ConfirmedRequestPDU, ComplexAckPDU,
                                         UnconfirmedRequestPDU}
                     then
                       (case APCISequence_decode c a2 of
                          (left', r') \<Rightarrow>
                            (case r' of
                               Inr a3 \<Rightarrow> Inr (n1, Some a3)
                             | Inl AttributeError \<Rightarrow> Inr (n1, Some (a2\<lparr>pduData := left'\<rparr>))
                             | Inl err \<Rightarrow> Inl err))
                     else Inr (n1, Some a2)))))"

section \<open>The pipeline\<close>

text \<open>
  Both entry points peel the frame with the same statements. \<open>peel_vlan\<close> is the
  branch "there could be a VLAN header": it returns the type and payload current after
  it. \<open>peel_ip\<close> is the branch "look for IP packets": it returns the payload, and the
  pair assigned to the local names \<open>pduSource\<close> and \<open>pduDestination\<close> when the
  branch assigns them (\<open>None\<close> when the frame is not IPv4 and the branch assigns
  nothing).
\<close>

definition peel_vlan :: "nat \<Rightarrow> bytes \<Rightarrow> exn + (nat \<times> bytes)" where
  "peel_vlan t payload =
     (if t = 0x8100 then bnd (decode_vlan payload) (\<lambda>d. Inr (vlan_type d, vlan_data d))
      else Inr (t, payload))"

definition peel_ip :: "nat \<Rightarrow> bytes \<Rightarrow> exn + ((endpoint \<times> endpoint) option \<times> bytes)" where
  "peel_ip t payload =
     (if t = 0x0800 then
        bnd (decode_ip payload) (\<lambda>d.
          if ip_protocol d = ''udp'' then
            bnd (decode_udp (ip_data d)) (\<lambda>u.
              Inr (Some (Addr (Address (AddrHostPort (ip_source_address d) (udp_source_port u)) None),
                         Addr (Address (AddrHostPort (ip_destination_address d)
                                          (udp_destination_port u)) None)),
                   udp_data u))
          else Inr (Some (Str (ip_source_address d), Str (ip_destination_address d)), ip_data d))
      else Inr (None, payload))"

text \<open>
  \<open>decode_packet\<close> binds the Ethernet addresses to \<open>pdu_source\<close> and
  \<open>pdu_destination\<close>, and builds the PDU from \<open>pduSource\<close> and
  \<open>pduDestination\<close>: when the IPv4 branch did not run, those two names are unbound
  and reading them raises UnboundLocalError.
\<close>

definition decode_packet :: "codec \<Rightarrow> bool \<Rightarrow> bytes \<Rightarrow> exn + packet option" where
  "decode_packet c route_aware raw =
     (if raw = [] then Inr None
      else
        bnd (decode_ethernet raw) (\<lambda>d.
        let pdu_source = Addr (Address (AddrStr (eth_source_address d)) None);
            pdu_destination = Addr (Address (AddrStr (eth_destination_address d)) None)
        in
        bnd (peel_vlan (eth_type d) (eth_data d)) (\<lambda>(t, payload).
        bnd (peel_ip t payload) (\<lambda>(bound, payload).
          if payload = [] then Inr None
          else
            (case bound of
               None \<Rightarrow> Inl UnboundLocalError
             | Some (pduSource', pduDestination') \<Rightarrow>
                 (let p = \<lparr> pduData = payload, pduSource = Some pduSource',
                             pduDestination = Some pduDestination' \<rparr>
                  in
                  bnd (decode_lpdu c route_aware p) (\<lambda>(p', l, bpdu).
                  bnd (decode_npdu c l) (\<lambda>(l', n).
                    case n of
                      None \<Rightarrow> Inr (Some (Link_obj l'))
                    | Some n \<Rightarrow>
                        bnd (decode_apdu c route_aware n) (\<lambda>(n', a).
                          case a of
                            Some a \<Rightarrow> Inr (Some (APDU_obj a))
                          | None \<Rightarrow> Inr (Some (NPDU_obj n')))))))))))"

text \<open>
  Timestamps are floats that the module only passes on. A DecodedPacket holds the
  layer objects themselves, not copies: what a later decode removes from the payload
  of the PDU or of the link-layer record shows in the record that is returned. In
  \<open>decode_packet_full\<close> below, \<open>lpdu != pdu\<close> holds exactly when
  \<open>decode_lpdu\<close> answered with a new record (\<open>LPDU_obj\<close>).
\<close>

type_synonym timestamp = real

record DecodedPacket =
  pdu :: PDU
  lpdu :: "LPDU option"
  npdu :: "NPDU option"
  apdu :: "APDU option"
  number :: "nat option"
  timestamp :: "timestamp option"

definition decode_packet_full :: "codec \<Rightarrow> bool \<Rightarrow> bytes \<Rightarrow> exn + DecodedPacket option" where
  "decode_packet_full c route_aware raw =
     (if raw = [] then Inr None
      else
        bnd (decode_ethernet raw) (\<lambda>d.
        let eth_source = Addr (Address (AddrStr (eth_source_address d)) None);
            eth_destination = Addr (Address (AddrStr (eth_destination_address d)) None)
        in
        bnd (peel_vlan (eth_type d) (eth_data d)) (\<lambda>(t, payload).
        bnd (peel_ip t payload) (\<lambda>(bound, payload).
          let (pduSource', pduDestination') =
                (case bound of None \<Rightarrow> (eth_source, eth_destination) | Some sd \<Rightarrow> sd)
          in
          if payload = [] then Inr None
          else
            (let p = \<lparr> pduData = payload, pduSource = Some pduSource',
                        pduDestination = Some pduDestination' \<rparr>;
                 result = \<lparr> pdu = p, lpdu = None, npdu = None, apdu = None,
                            number = None, timestamp = None \<rparr>
             in
             bnd (decode_lpdu c route_aware p) (\<lambda>(p', l, bpdu).
             bnd (decode_npdu c l) (\<lambda>(l', n).
               let result =
                     (case l' of
                        LPDU_obj x \<Rightarrow> result\<lparr>pdu := p', lpdu := Some x\<rparr>
                      | PDU_obj q \<Rightarrow> result\<lparr>pdu := q\<rparr>)
               in
               case n of
                 None \<Rightarrow> Inr (Some result)
               | Some n \<Rightarrow>
                   bnd (decode_apdu c route_aware n) (\<lambda>(n', a).
                     let result = result\<lparr>npdu := Some n'\<rparr> in
                     case a of
                       Some a \<Rightarrow> Inr (Some (result\<lparr>apdu := Some a\<rparr>))
                     | None \<Rightarrow> Inr (Some result)))))))))"

text \<open>
  The deepest populated layer of a full record, in the order the module's own printer
  uses: application, network, link, transport.
\<close>

definition deepest :: "DecodedPacket \<Rightarrow> packet" where
  "deepest r =
     (case apdu r of
        Some a \<Rightarrow> APDU_obj a
      | None \<Rightarrow>
          (case npdu r of
             Some n \<Rightarrow> NPDU_obj n
           | None \<Rightarrow>
               (case lpdu r of
                  Some l \<Rightarrow> Link_obj (LPDU_obj l)
                | None \<Rightarrow> Link_obj (PDU_obj (pdu r)))))"

section \<open>The per-record source\<close>

text \<open>
  The capture reader yields triples \<open>(len, timestamp, data)\<close>. \<open>decode_file\<close>
  stores the packet number and the timestamp in two new attributes \<open>_number\<close> and
  \<open>_timestamp\<close> of the packet it yields; \<open>decode_file_full\<close> assigns the fields
  \<open>number\<close> and \<open>timestamp\<close> of the DecodedPacket. A generator is the list of
  what it yields; the loop index \<open>i\<close> is that of \<open>enumerate\<close>. The flag
  \<open>pylibpcap\<close> says whether the capture library was imported.
\<close>

type_synonym raw_record = "nat \<times> timestamp \<times> bytes"

record stamped =
  pkt_object :: packet
  pkt_number :: nat
  pkt_timestamp :: timestamp

fun decode_file_loop :: "codec \<Rightarrow> bool \<Rightarrow> nat \<Rightarrow> raw_record list \<Rightarrow> stamped list" where
  "decode_file_loop c route_aware i [] = []"
| "decode_file_loop c route_aware i ((len, ts, raw) # p) =
     (case decode_packet c route_aware raw of
        Inl err \<Rightarrow> decode_file_loop c route_aware (i + 1) p
      | Inr None \<Rightarrow> decode_file_loop c route_aware (i + 1) p
      | Inr (Some k) \<Rightarrow>
          \<lparr> pkt_object = k, pkt_number = i + 1, pkt_timestamp = ts \<rparr>
            # decode_file_loop c route_aware (i + 1) p)"

definition decode_file :: "codec \<Rightarrow> bool \<Rightarrow> bool \<Rightarrow> raw_record list \<Rightarrow> exn + stamped list" where
  "decode_file c route_aware pylibpcap p =
     (if \<not> pylibpcap then Inl RuntimeError else Inr (decode_file_loop c route_aware 0 p))"

fun decode_file_full_loop ::
  "codec \<Rightarrow> bool \<Rightarrow> nat \<Rightarrow> raw_record list \<Rightarrow> DecodedPacket list" where
  "decode_file_full_loop c route_aware i [] = []"
| "decode_file_full_loop c route_aware i ((len, ts, raw) # p) =
     (case decode_packet_full c route_aware raw of
        Inl err \<Rightarrow> decode_file_full_loop c route_aware (i + 1) p
      | Inr None \<Rightarrow> decode_file_full_loop c route_aware (i + 1) p
      | Inr (Some k) \<Rightarrow>
          k\<lparr>number := Some (i + 1), timestamp := Some ts\<rparr>
            # decode_file_full_loop c route_aware (i + 1) p)"

definition decode_file_full ::
  "codec \<Rightarrow> bool \<Rightarrow> bool \<Rightarrow> raw_record list \<Rightarrow> exn + DecodedPacket list" where
  "decode_file_full c route_aware pylibpcap p =
     (if \<not> pylibpcap then Inl RuntimeError
      else Inr (decode_file_full_loop c route_aware 0 p))"

text \<open>
  What the source is meant to yield, said without a loop: the records whose decode
  returns a packet, in order, each with its 1-based position and its timestamp.
\<close>

definition expected_yield :: "codec \<Rightarrow> bool \<Rightarrow> raw_record list \<Rightarrow> stamped list" where
  "expected_yield c route_aware p =
     List.map_filter
       (\<lambda>(i, (len, ts, raw)).
          case decode_packet c route_aware raw of
            Inr (Some k) \<Rightarrow> Some \<lparr> pkt_object = k, pkt_number = i, pkt_timestamp = ts \<rparr>
          | _ \<Rightarrow> None)
       (List.enumerate 1 p)"

definition expected_yield_full ::
  "codec \<Rightarrow> bool \<Rightarrow> raw_record list \<Rightarrow> DecodedPacket list" where
  "expected_yield_full c route_aware p =
     List.map_filter
       (\<lambda>(i, (len, ts, raw)).
          case decode_packet_full c route_aware raw of
            Inr (Some k) \<Rightarrow> Some (k\<lparr>number := Some i, timestamp := Some ts\<rparr>)
          | _ \<Rightarrow> None)
       (List.enumerate 1 p)"

section \<open>Tracers\<close>

text \<open>
  A tracer object holds its current state, a bound method or \<open>None\<close>, and whatever
  else its class keeps (\<open>tracer_vars\<close>). A tracer class is a parameter: the method
  \<open>start\<close> every tracer has, the variables of a fresh instance, and what calling a
  state of an instance with a packet does to that instance (or the exception it raises).
  \<open>Tracer_next\<close> is the method \<open>next\<close>, \<open>Tracer_init\<close> the constructor.
\<close>

record ('h, 'd) Tracer =
  current_state :: "'h option"
  tracer_vars :: 'd

record ('h, 'd) tracer_class =
  start :: 'h
  fresh_vars :: 'd
  call_state :: "'h \<Rightarrow> ('h, 'd) Tracer \<Rightarrow> stamped \<Rightarrow> exn + ('h, 'd) Tracer"

definition Tracer_next :: "('h, 'd) Tracer \<Rightarrow> 'h option \<Rightarrow> ('h, 'd) Tracer" where
  "Tracer_next self fn = self\<lparr>current_state := fn\<rparr>"

definition Tracer_init :: "('h, 'd) tracer_class \<Rightarrow> 'h option \<Rightarrow> ('h, 'd) Tracer" where
  "Tracer_init cls initial_state =
     Tracer_next \<lparr> current_state = None, tracer_vars = fresh_vars cls \<rparr>
       (case initial_state of Some fn \<Rightarrow> Some fn | None \<Rightarrow> Some (start cls))"

text \<open>
  The inner loop of \<open>trace\<close> over \<open>enumerate(current_tracers)\<close>, from index
  \<open>i\<close> on. \<open>current_tracers[i]\<close> is always an instance of \<open>tracers[i]\<close>, the
  two lists having one length. Calling a state that is \<open>None\<close> is a TypeError.
\<close>

function trace_tracers ::
  "('h, 'd) tracer_class list \<Rightarrow> stamped \<Rightarrow> nat \<Rightarrow> ('h, 'd) Tracer list
     \<Rightarrow> exn + ('h, 'd) Tracer list" where
  "trace_tracers tracers k i current_tracers =
     (if i < length current_tracers \<and> i < length tracers then
        (case current_state (current_tracers ! i) of
           None \<Rightarrow> Inl TypeError
         | Some fn \<Rightarrow>
             (case call_state (tracers ! i) fn (current_tracers ! i) k of
                Inl err \<Rightarrow> Inl err
              | Inr tracer \<Rightarrow>
                  if current_state tracer = None then
                    trace_tracers tracers k (i + 1)
                      (current_tracers[i := Tracer_init (tracers ! i) None])
                  else trace_tracers tracers k (i + 1) (current_tracers[i := tracer])))
      else Inr current_tracers)"
  by pat_completeness auto
termination
  by (relation "measure (\<lambda>(tracers, k, i, current_tracers). length current_tracers - i)") auto

fun trace_loop ::
  "('h, 'd) tracer_class list \<Rightarrow> stamped list \<Rightarrow> ('h, 'd) Tracer list
     \<Rightarrow> exn + ('h, 'd) Tracer list" where
  "trace_loop tracers [] current_tracers = Inr current_tracers"
| "trace_loop tracers (k # ks) current_tracers =
     (case trace_tracers tracers k 0 current_tracers of
        Inl err \<Rightarrow> Inl err
      | Inr current_tracers' \<Rightarrow> trace_loop tracers ks current_tracers')"

text \<open>\<open>trace\<close> returns nothing; its effect is the list of tracers it leaves.\<close>

definition trace ::
  "codec \<Rightarrow> bool \<Rightarrow> bool \<Rightarrow> raw_record list \<Rightarrow> ('h, 'd) tracer_class list
     \<Rightarrow> exn + ('h, 'd) Tracer list" where
  "trace c route_aware pylibpcap p tracers =
     (let current_tracers = map (\<lambda>traceClass. Tracer_init traceClass None) tracers in
      bnd (decode_file c route_aware pylibpcap p) (\<lambda>ks.
        trace_loop tracers ks current_tracers))"

section \<open>A stand-in codec and sample frames\<close>

text \<open>
  To run the dissector on concrete frames the codec parameter needs a value. The
  stand-in below follows the layout of the protocol in the simplest way: a virtual-link
  header of four bytes (marker, function, two length bytes), a forwarded message with a
  six-byte address after it, a network header of two bytes (version, control) with a
  message type behind it when the top control bit is set, and an application header
  whose class is the high half of its first byte. A decode removes the bytes of its
  header from the object it is given, and raises when they are not all there. A
  forwarded record comes without the transport addresses of the frame that carried it.
\<close>

definition example_LPDU_decode :: "PDU \<Rightarrow> bytes \<times> (exn + LPDU)" where
  "example_LPDU_decode p =
     (drop 4 (pduData p),
      if length (pduData p) < 4 then Inl DecodingError
      else Inr \<lparr> pduData = drop 4 (pduData p), pduSource = pduSource p,
                 pduDestination = pduDestination p,
                 bvlciFunction = unat (pduData p ! 1), bvlciAddress = None \<rparr>)"

definition example_bvll_pdu_types :: "nat \<Rightarrow> bvll_type option" where
  "example_bvll_pdu_types f =
     (if f = 4 then Some ForwardedNPDU
      else if f = 9 then Some DistributeBroadcastToNetwork
      else if f = 10 then Some OriginalUnicastNPDU
      else if f = 11 then Some OriginalBroadcastNPDU
      else if f = 0 then Some (OtherBVLL 0)
      else None)"

fun example_bvll_code :: "bvll_type \<Rightarrow> nat" where
  "example_bvll_code ForwardedNPDU = 4"
| "example_bvll_code DistributeBroadcastToNetwork = 9"
| "example_bvll_code OriginalUnicastNPDU = 10"
| "example_bvll_code OriginalBroadcastNPDU = 11"
| "example_bvll_code (OtherBVLL f) = f"

definition example_bvll_new :: "bvll_type \<Rightarrow> exn + LPDU" where
  "example_bvll_new t =
     Inr \<lparr> pduData = [], pduSource = None, pduDestination = None,
           bvlciFunction = example_bvll_code t, bvlciAddress = None \<rparr>"

definition example_bvll_decode :: "bvll_type \<Rightarrow> LPDU \<Rightarrow> bytes \<times> (exn + LPDU)" where
  "example_bvll_decode t l =
     (if t = ForwardedNPDU then
        (drop 6 (pduData l),
         if length (pduData l) < 6 then Inl DecodingError
         else Inr (l\<lparr> pduData := drop 6 (pduData l), pduSource := None,
                      pduDestination := None,
                      bvlciAddress := Some (Address (AddrDecoded (take 6 (pduData l))) None) \<rparr>))
      else if t = OtherBVLL 0 then
        (drop 2 (pduData l),
         if length (pduData l) < 2 then Inl DecodingError
         else Inr (l\<lparr> pduData := drop 2 (pduData l) \<rparr>))
      else ([], Inr l))"

definition example_NPDU_decode :: "link \<Rightarrow> bytes \<times> (exn + NPDU)" where
  "example_NPDU_decode k =
     (let s = link_data k; src = link_source k; dst = link_destination k
      in
      if length s < 2 then ([], Inl DecodingError)
      else if unat (s ! 1) < 128 then
        (drop 2 s,
         Inr \<lparr> pduData = drop 2 s, pduSource = src, pduDestination = dst,
               npduNetMessage = None, npduSADR = None, npduDADR = None \<rparr>)
      else if length s < 3 then ([], Inl DecodingError)
      else
        (drop 3 s,
         Inr \<lparr> pduData = drop 3 s, pduSource = src, pduDestination = dst,
               npduNetMessage = Some (unat (s ! 2)), npduSADR = None, npduDADR = None \<rparr>))"

definition example_APDU_decode :: "NPDU \<Rightarrow> bytes \<times> (exn + APDU)" where
  "example_APDU_decode n =
     (case pduData n of
        [] \<Rightarrow> ([], Inl DecodingError)
      | b # rest \<Rightarrow>
          (rest,
           Inr \<lparr> pduData = rest, pduSource = None, pduDestination = None,
                 apduClass =
                   (let t = unat b div 16 in
                    if t = 0 then ConfirmedRequestPDU
                    else if t = 1 then UnconfirmedRequestPDU
                    else if t = 3 then ComplexAckPDU
                    else OtherAPDU t),
                 apduSequence = False \<rparr>))"

definition example_APCISequence_decode :: "APDU \<Rightarrow> bytes \<times> (exn + APDU)" where
  "example_APCISequence_decode a =
     ([], if pduData a = [] then Inl AttributeError else Inr (a\<lparr>apduSequence := True\<rparr>))"

definition example_codec :: codec where
  "example_codec =
     \<lparr> LPDU_decode = example_LPDU_decode,
       bvll_pdu_types = example_bvll_pdu_types,
       bvll_new = example_bvll_new,
       bvll_decode = example_bvll_decode,
       NPDU_decode = example_NPDU_decode,
       npdu_types = (\<lambda>m. None),
       ntype_decode = (\<lambda>t n. (pduData n, Inr n)),
       APDU_decode = example_APDU_decode,
       APCISequence_decode = example_APCISequence_decode \<rparr>"

text \<open>
  Sample frames. \<open>arp_frame\<close>: an Ethernet header with type 0x0806 and one payload
  byte. \<open>udp_frame payload\<close>: Ethernet, an IPv4 header of five words from
  192.168.0.10 to 192.168.0.255 with protocol 17, and a UDP header from and to port
  47808 whose length field is 8 plus the payload's length.
\<close>

definition ethernet_header :: "byte \<Rightarrow> byte \<Rightarrow> bytes" where
  "ethernet_header t_hi t_lo =
     [0xFF, 0xFF, 0xFF, 0xFF, 0xFF, 0xFF, 0x00, 0x11, 0x22, 0x33, 0x44, 0x55, t_hi, t_lo]"

definition arp_frame :: bytes where
  "arp_frame = ethernet_header 0x08 0x06 @ [0x00]"

definition ipv4_header :: "byte \<Rightarrow> byte \<Rightarrow> bytes" where
  "ipv4_header first protocol =
     [first, 0x00, 0x00, 0x00, 0x00, 0x00, 0x00, 0x00, 0x40, protocol, 0x00, 0x00,
      0xC0, 0xA8, 0x00, 0x0A, 0xC0, 0xA8, 0x00, 0xFF]"

definition udp_header :: "nat \<Rightarrow> bytes" where
  "udp_header n = [0xBA, 0xC0, 0xBA, 0xC0, of_nat (n div 256), of_nat (n mod 256), 0x00, 0x00]"

definition udp_frame :: "bytes \<Rightarrow> bytes" where
  "udp_frame payload =
     ethernet_header 0x08 0x00 @ ipv4_header 0x45 0x11 @ udp_header (8 + length payload)
       @ payload"

text \<open>
  The endpoints \<open>udp_frame\<close> resolves to, and the PDU the pipeline builds from it.
\<close>

definition sample_source :: endpoint where
  "sample_source = Addr (Address (AddrHostPort ''192.168.0.10'' 47808) None)"

definition sample_destination :: endpoint where
  "sample_destination = Addr (Address (AddrHostPort ''192.168.0.255'' 47808) None)"

definition sample_pdu :: "bytes \<Rightarrow> PDU" where
  "sample_pdu payload =
     \<lparr> pduData = payload, pduSource = Some sample_source,
       pduDestination = Some sample_destination \<rparr>"

text \<open>
  Payloads: an original-unicast frame carrying an unconfirmed request; a virtual-link
  frame that is its four-byte header and nothing more; a forwarded frame from
  192.168.0.20:47808 carrying the same request.
\<close>

definition unicast_payload :: bytes where
  "unicast_payload = [0x81, 0x0A, 0x00, 0x08, 0x01, 0x00, 0x10, 0x08]"

definition bare_bvll_payload :: bytes where
  "bare_bvll_payload = [0x81, 0x0A, 0x00, 0x04]"

definition forwarded_payload :: bytes where
  "forwarded_payload =
     [0x81, 0x04, 0x00, 0x0E, 0xC0, 0xA8, 0x00, 0x14, 0xBA, 0xC0, 0x01, 0x00, 0x10, 0x08]"

definition forwarded_address :: address where
  "forwarded_address = Address (AddrDecoded [0xC0, 0xA8, 0x00, 0x14, 0xBA, 0xC0]) None"

text \<open>A capture of three records whose middle one raises during decoding.\<close>

definition three_records :: "raw_record list" where
  "three_records =
     [(50, 1, udp_frame unicast_payload),
      (46, 2, udp_frame bare_bvll_payload),
      (50, 3, udp_frame unicast_payload)]"

text \<open>
  A tracer class with two states: \<open>start\<close> counts the packet and moves to
  \<open>seen\<close>; \<open>seen\<close> counts the packet and ends the tracer (\<open>self.next(None)\<close>).
\<close>

datatype example_state = Start | Seen

definition example_tracer :: "(example_state, nat) tracer_class" where
  "example_tracer =
     \<lparr> start = Start,
       fresh_vars = 0,
       call_state = (\<lambda>fn self k.
         case fn of
           Start \<Rightarrow> Inr (Tracer_next (self\<lparr>tracer_vars := tracer_vars self + 1\<rparr>) (Some Seen))
         | Seen \<Rightarrow> Inr (Tracer_next (self\<lparr>tracer_vars := tracer_vars self + 1\<rparr>) None)) \<rparr>"

section \<open>Basic facts\<close>

lemma bnd_Inl [simp]: "bnd (Inl e) f = Inl e"
  by (simp add: bnd_def)

lemma bnd_Inr [simp]: "bnd (Inr x) f = f x"
  by (simp add: bnd_def)

lemmas frame_defs =
  decode_ethernet_def decode_vlan_def decode_ip_def decode_udp_def peel_vlan_def peel_ip_def
  slice_def slice_from_def unpack_H_def byte_at_def inet_ntoa_def dec_str_def dec_digit_def
  hex2_def hex_digit_def protocol_name_def

lemmas sample_defs =
  arp_frame_def udp_frame_def ethernet_header_def ipv4_header_def udp_header_def
  sample_source_def sample_destination_def sample_pdu_def unicast_payload_def
  bare_bvll_payload_def forwarded_payload_def forwarded_address_def

lemmas example_defs =
  example_codec_def example_LPDU_decode_def example_bvll_pdu_types_def
  example_bvll_new_def example_bvll_decode_def example_NPDU_decode_def
  example_APDU_decode_def example_APCISequence_decode_def

lemmas layer_defs = decode_lpdu_def decode_npdu_def decode_apdu_def



subsection \<open>The link and network decoders on empty and non-empty payloads\<close>





text \<open>
  When \<open>decode_lpdu\<close> answers with a PDU, it is the object it was given, as the call
  left it; and \<open>decode_npdu\<close> answers with the kind of object it was given.
\<close>

lemma decode_lpdu_keeps_pdu: "decode_lpdu c ra p = Inr (p', PDU_obj q, b) \<Longrightarrow> q = p'"
  by (auto simp: decode_lpdu_def bnd_def Let_def
      split: sum.splits option.splits if_splits prod.splits)

lemma decode_npdu_keeps_kind:
  "decode_npdu c k = Inr (k', n) \<Longrightarrow> (\<exists>q. k = PDU_obj q) = (\<exists>q. k' = PDU_obj q)"
  by (cases k)
     (auto simp: decode_npdu_def bnd_def Let_def
       split: sum.splits option.splits if_splits prod.splits)

text \<open>If the payload does not start with the marker, the PDU is handed back untouched.\<close>

lemma decode_lpdu_no_marker:
  "byte_at (pduData p) 0 = Inr b0 \<Longrightarrow> b0 \<noteq> 0x81 \<Longrightarrow> decode_lpdu c ra p = Inr (p, PDU_obj p, None)"
  by (simp add: decode_lpdu_def)

section \<open>The two entry points (C1)\<close>

text \<open>
  Apart from the unbound names, the two entry points agree: whatever
  \<open>decode_packet\<close> does that is not an UnboundLocalError is what the deepest layer
  of \<open>decode_packet_full\<close> is, fault for fault and \<open>None\<close> for \<open>None\<close>.
\<close>

lemma decode_packet_refines:
  "decode_packet c ra raw = Inl UnboundLocalError \<or>
   decode_packet c ra raw = map_sum id (map_option deepest) (decode_packet_full c ra raw)"
  by (auto simp: decode_packet_def decode_packet_full_def bnd_def Let_def deepest_def
      dest: decode_lpdu_keeps_pdu
      split: sum.splits option.splits prod.splits link.splits)

text \<open>
  C1. The claim: for every raw input the deepest populated layer of
  \<open>decode_packet_full\<close> equals the result of \<open>decode_packet\<close>, or both are
  \<open>None\<close>. On the frame \<open>arp_frame\<close> (Ethernet type 0x0806, one payload byte)
  the full decode returns a record whose deepest layer is the transport PDU with the
  two MAC addresses, whatever the codec, and \<open>decode_packet\<close> raises
  UnboundLocalError: the two differ.
\<close>

theorem decode_packet_differs_from_full:
  "map_sum id (map_option deepest) (decode_packet_full c ra arp_frame) =
     Inr (Some (Link_obj (PDU_obj
       \<lparr> pduData = [0x00],
         pduSource = Some (Addr (Address (AddrStr ''00:11:22:33:44:55'') None)),
         pduDestination = Some (Addr (Address (AddrStr ''ff:ff:ff:ff:ff:ff'') None)) \<rparr>)))
   \<and> decode_packet c ra arp_frame = Inl UnboundLocalError"
  by (simp add: decode_packet_def decode_packet_full_def deepest_def frame_defs sample_defs
      layer_defs Let_def)

section \<open>Frames that are not IPv4 (C4)\<close>

text \<open>
  The full decode keeps the MAC strings of such a frame as the addresses of the
  transport PDU, and passes the Ethernet payload through as its payload: untouched when
  it starts with neither the marker nor the version byte, and otherwise less the bytes
  the codecs have read from it.
\<close>

lemma decode_lpdu_pdu_addresses:
  "decode_lpdu c ra p = Inr (p', l, b) \<Longrightarrow>
     pduSource p' = pduSource p \<and> pduDestination p' = pduDestination p"
  by (auto simp: decode_lpdu_def bnd_def Let_def
      split: sum.splits option.splits if_splits prod.splits)

lemma decode_npdu_pdu_addresses:
  "decode_npdu c (PDU_obj q) = Inr (PDU_obj q', n) \<Longrightarrow>
     pduSource q' = pduSource q \<and> pduDestination q' = pduDestination q"
  by (auto simp: decode_npdu_def bnd_def Let_def
      split: sum.splits option.splits if_splits prod.splits)

lemma decode_packet_full_other_ethertype:
  assumes "decode_ethernet raw = Inr d"
    and "eth_type d \<noteq> 0x8100" and "eth_type d \<noteq> 0x0800"
    and "decode_packet_full c ra raw = Inr (Some k)"
  shows "pduSource (pdu k) = Some (Addr (Address (AddrStr (eth_source_address d)) None))
         \<and> pduDestination (pdu k)
             = Some (Addr (Address (AddrStr (eth_destination_address d)) None))
         \<and> (\<forall>b0. byte_at (eth_data d) 0 = Inr b0 \<longrightarrow> b0 \<noteq> 0x81 \<longrightarrow> b0 \<noteq> 0x01 \<longrightarrow>
               pduData (pdu k) = eth_data d)"
proof -
  let ?p = "\<lparr> pduData = eth_data d,
              pduSource = Some (Addr (Address (AddrStr (eth_source_address d)) None)),
              pduDestination =
                Some (Addr (Address (AddrStr (eth_destination_address d)) None)) \<rparr>"
  from assms obtain p' l b l' n where
    l: "decode_lpdu c ra ?p = Inr (p', l, b)" and n: "decode_npdu c l = Inr (l', n)"
    and k: "pdu k = (case l' of LPDU_obj x \<Rightarrow> p' | PDU_obj q \<Rightarrow> q)"
    by (auto simp: decode_packet_full_def peel_vlan_def peel_ip_def bnd_def Let_def
        split: sum.splits option.splits prod.splits link.splits if_splits)
  have addr: "pduSource (pdu k) = pduSource ?p \<and> pduDestination (pdu k) = pduDestination ?p"
  proof (cases l')
    case (LPDU_obj x)
    with k decode_lpdu_pdu_addresses [OF l] show ?thesis by simp
  next
    case (PDU_obj q)
    with decode_npdu_keeps_kind [OF n] obtain q0 where q0: "l = PDU_obj q0" by auto
    with decode_lpdu_keeps_pdu l have "q0 = p'" by blast
    with q0 n PDU_obj decode_npdu_pdu_addresses [of c p' q n]
         decode_lpdu_pdu_addresses [OF l] k
    show ?thesis by simp
  qed
  have data: "\<forall>b0. byte_at (eth_data d) 0 = Inr b0 \<longrightarrow> b0 \<noteq> 0x81 \<longrightarrow> b0 \<noteq> 0x01 \<longrightarrow>
               pduData (pdu k) = eth_data d"
  proof (intro allI impI)
    fix b0
    assume b: "byte_at (eth_data d) 0 = Inr b0" "b0 \<noteq> 0x81" "b0 \<noteq> 0x01"
    then have "decode_lpdu c ra ?p = Inr (?p, PDU_obj ?p, None)"
      by (simp add: decode_lpdu_no_marker)
    with l have "p' = ?p" "l = PDU_obj ?p" by auto
    with n b have "l' = PDU_obj ?p"
      by (simp add: decode_npdu_def)
    with k show "pduData (pdu k) = eth_data d" by simp
  qed
  from addr data show ?thesis by simp
qed

text \<open>
  C4. The claim: for every frame whose ethertype is neither 0x8100 nor 0x0800 both
  entry points pass the Ethernet payload through as the transport payload, with MAC
  addresses, and return a transport-level result rather than raising. For
  \<open>decode_packet\<close> the opposite holds: on every such frame with a payload it raises
  UnboundLocalError.
\<close>

theorem decode_packet_other_ethertype_unbound:
  assumes "decode_ethernet raw = Inr d"
    and "eth_type d \<noteq> 0x8100" and "eth_type d \<noteq> 0x0800"
    and "eth_data d \<noteq> []"
  shows "decode_packet c ra raw = Inl UnboundLocalError"
proof -
  from assms(1) have "raw \<noteq> []"
    by (auto simp: decode_ethernet_def unpack_H_def slice_def)
  with assms show ?thesis
    by (simp add: decode_packet_def peel_vlan_def peel_ip_def Let_def)
qed

theorem decode_packet_other_ethertype_unbound_witness:
  "map_sum id eth_type (decode_ethernet arp_frame) = Inr 0x0806
   \<and> map_sum id eth_data (decode_ethernet arp_frame) = Inr [0x00]
   \<and> decode_packet example_codec False arp_frame = Inl UnboundLocalError"
proof -
  let ?d = "\<lparr> eth_destination_address = ''ff:ff:ff:ff:ff:ff'',
              eth_source_address = ''00:11:22:33:44:55'',
              eth_type = 0x0806, eth_data = [0x00] \<rparr>"
  have d: "decode_ethernet arp_frame = Inr ?d"
    by (simp add: frame_defs sample_defs)
  have "decode_packet example_codec False arp_frame = Inl UnboundLocalError"
    by (rule decode_packet_other_ethertype_unbound [OF d]) simp_all
  with d show ?thesis by simp
qed

section \<open>The options of an IPv4 header (C7)\<close>

text \<open>
  The options slice ends at \<open>4 * (header_len - 5)\<close>, the length of the options and
  not their end offset: up to ten words it is empty.
\<close>

lemma decode_ip_options_short:
  assumes "decode_ip s = Inr d" and "5 < ip_header_len d" and "ip_header_len d \<le> 10"
  shows "ip_options d = Some []"
  using assms
  by (auto simp: decode_ip_def bnd_def Let_def slice_def split: sum.splits)

text \<open>
  C7. The claim: with a header length above five words the options field is the bytes
  from offset 20 up to offset 4 * header_len. For a header of six words with the
  options bytes 1, 2, 3, 4 at offsets 20 to 23, \<open>decode_ip\<close> returns the empty
  options instead, with header length 6.
\<close>

theorem decode_ip_options_six_words:
  "map_sum id ip_header_len (decode_ip (ipv4_header 0x46 0x11 @ [0x01, 0x02, 0x03, 0x04])) = Inr 6
   \<and> map_sum id ip_options (decode_ip (ipv4_header 0x46 0x11 @ [0x01, 0x02, 0x03, 0x04]))
       = Inr (Some [])"
  by (simp add: frame_defs sample_defs)


section \<open>Empty payloads (C6)\<close>

text \<open>An empty record is no packet.\<close>

lemma decode_packet_empty_record:
  "decode_packet c ra [] = Inr None \<and> decode_packet_full c ra [] = Inr None"
  by (simp add: decode_packet_def decode_packet_full_def)

text \<open>
  An empty payload in front of a header still to be peeled is a fault of that header's
  decoder: \<open>decode_vlan\<close> and \<open>decode_udp\<close> fail to unpack, \<open>decode_ip\<close>
  indexes byte 0.
\<close>

lemma decoders_on_empty:
  "decode_vlan [] = Inl StructError \<and> decode_ip [] = Inl IndexError
   \<and> decode_udp [] = Inl StructError"
  by (simp add: decode_vlan_def decode_ip_def decode_udp_def unpack_H_def slice_def byte_at_def)

text \<open>
  C6, as amended. The claim: a zero-length payload produced at any peeling stage makes
  the pipeline return \<open>None\<close>. What holds: the pipeline tests the payload once, when
  peeling has ended. If the payload is empty then (after the Ethernet header of a frame
  that carries neither a VLAN tag nor IPv4, after the VLAN tag of a frame that is not
  IPv4, after the IPv4 header of a packet that is not UDP, or after the UDP header),
  both entry points return \<open>None\<close>, whatever the codec: no layer decoder runs.
\<close>

theorem empty_final_payload_is_none:
  assumes "decode_ethernet raw = Inr d"
    and "peel_vlan (eth_type d) (eth_data d) = Inr (t, rest)"
    and "peel_ip t rest = Inr (bound, [])"
  shows "decode_packet c ra raw = Inr None \<and> decode_packet_full c ra raw = Inr None"
proof -
  from assms(1) have "raw \<noteq> []"
    by (auto simp: decode_ethernet_def unpack_H_def slice_def)
  with assms show ?thesis
    by (simp add: decode_packet_def decode_packet_full_def Let_def
        split: prod.split option.split)
qed

theorem empty_final_payload_is_none_witness:
  "peel_ip 0x0800 (ipv4_header 0x45 0x11 @ udp_header 8)
     = Inr (Some (sample_source, sample_destination), [])
   \<and> decode_packet example_codec False (udp_frame []) = Inr None
   \<and> decode_packet_full example_codec False (udp_frame []) = Inr None"
proof -
  let ?d = "\<lparr> eth_destination_address = ''ff:ff:ff:ff:ff:ff'',
              eth_source_address = ''00:11:22:33:44:55'',
              eth_type = 0x0800, eth_data = ipv4_header 0x45 0x11 @ udp_header 8 \<rparr>"
  have d: "decode_ethernet (udp_frame []) = Inr ?d"
    by (simp add: frame_defs sample_defs)
  have v: "peel_vlan (eth_type ?d) (eth_data ?d)
             = Inr (0x0800, ipv4_header 0x45 0x11 @ udp_header 8)"
    by (simp add: peel_vlan_def)
  have i: "peel_ip 0x0800 (ipv4_header 0x45 0x11 @ udp_header 8)
             = Inr (Some (sample_source, sample_destination), [])"
    by (simp add: frame_defs sample_defs)
  from empty_final_payload_is_none [OF d v i, of example_codec False] i
  show ?thesis by simp
qed

text \<open>
  The claim as stated fails on a frame that is its Ethernet header alone with the IPv4
  type: the payload after the Ethernet header is empty, and both entry points raise
  IndexError from \<open>decode_ip\<close>.
\<close>

theorem empty_payload_before_ip_header_faults:
  "map_sum id eth_data (decode_ethernet (ethernet_header 0x08 0x00)) = Inr []
   \<and> decode_packet example_codec False (ethernet_header 0x08 0x00) = Inl IndexError
   \<and> decode_packet_full example_codec False (ethernet_header 0x08 0x00) = Inl IndexError"
  by (simp add: decode_packet_def decode_packet_full_def frame_defs sample_defs Let_def)

section \<open>Structural faults of the network header (C2)\<close>

text \<open>
  C2, as amended. The claim: a fault of the structural decode of a version-matched
  network header is not caught in the network-layer decoder and the record is skipped.
  What holds: \<open>decode_npdu\<close> catches it and returns \<open>None\<close>; the pipeline then
  answers with the link-layer record (as the failed decode left it), and the per-record
  source yields that record with its index and timestamp.
\<close>

theorem npdu_structural_fault_falls_back:
  assumes "decode_ethernet raw = Inr d"
    and "peel_vlan (eth_type d) (eth_data d) = Inr (t, rest)"
    and "peel_ip t rest = Inr (Some (s, s'), payload)"
    and "payload \<noteq> []"
    and "decode_lpdu c ra \<lparr> pduData = payload, pduSource = Some s, pduDestination = Some s' \<rparr>
           = Inr (p', l, b)"
    and "byte_at (link_data l) 0 = Inr 0x01"
    and "NPDU_decode c l = (left, Inl err)"
  shows "decode_npdu c l = Inr (set_link_data l left, None)
         \<and> decode_packet c ra raw = Inr (Some (Link_obj (set_link_data l left)))
         \<and> decode_file c ra True [(len, ts, raw)]
             = Inr [\<lparr> pkt_object = Link_obj (set_link_data l left), pkt_number = 1,
                     pkt_timestamp = ts \<rparr>]"
proof -
  from assms(1) have raw: "raw \<noteq> []"
    by (auto simp: decode_ethernet_def unpack_H_def slice_def)
  have n: "decode_npdu c l = Inr (set_link_data l left, None)"
    using assms(6,7) by (simp add: decode_npdu_def)
  have p: "decode_packet c ra raw = Inr (Some (Link_obj (set_link_data l left)))"
    using assms(1-5) raw n by (simp add: decode_packet_def Let_def)
  show ?thesis
    using n p by (simp add: decode_file_def)
qed

theorem npdu_structural_fault_falls_back_witness:
  "NPDU_decode example_codec (PDU_obj (sample_pdu [0x01])) = ([], Inl DecodingError)
   \<and> decode_npdu example_codec (PDU_obj (sample_pdu [0x01]))
       = Inr (PDU_obj (sample_pdu []), None)
   \<and> decode_packet example_codec False (udp_frame [0x01])
       = Inr (Some (Link_obj (PDU_obj (sample_pdu []))))
   \<and> decode_file example_codec False True [(43, 7, udp_frame [0x01])]
       = Inr [\<lparr> pkt_object = Link_obj (PDU_obj (sample_pdu [])), pkt_number = 1,
               pkt_timestamp = 7 \<rparr>]"
proof -
  let ?rest = "ipv4_header 0x45 0x11 @ udp_header 9 @ [0x01]"
  let ?d = "\<lparr> eth_destination_address = ''ff:ff:ff:ff:ff:ff'',
              eth_source_address = ''00:11:22:33:44:55'',
              eth_type = 0x0800, eth_data = ?rest \<rparr>"
  have d: "decode_ethernet (udp_frame [0x01]) = Inr ?d"
    by (simp add: frame_defs sample_defs)
  have v: "peel_vlan (eth_type ?d) (eth_data ?d) = Inr (0x0800, ?rest)"
    by (simp add: peel_vlan_def)
  have i: "peel_ip 0x0800 ?rest = Inr (Some (sample_source, sample_destination), [0x01])"
    by (simp add: frame_defs sample_defs)
  have ne: "[0x01 :: byte] \<noteq> []"
    by simp
  have l: "decode_lpdu example_codec False
             \<lparr> pduData = [0x01], pduSource = Some sample_source,
               pduDestination = Some sample_destination \<rparr>
           = Inr (sample_pdu [0x01], PDU_obj (sample_pdu [0x01]), None)"
    by (simp add: decode_lpdu_def byte_at_def sample_pdu_def)
  have b: "byte_at (link_data (PDU_obj (sample_pdu [0x01]))) 0 = Inr 0x01"
    by (simp add: byte_at_def sample_pdu_def)
  have f: "NPDU_decode example_codec (PDU_obj (sample_pdu [0x01])) = ([], Inl DecodingError)"
    by (simp add: example_defs sample_pdu_def)
  have s: "set_link_data (PDU_obj (sample_pdu [0x01])) [] = PDU_obj (sample_pdu [])"
    by (simp add: sample_pdu_def)
  from npdu_structural_fault_falls_back [OF d v i ne l b f, of 43 7] f s
  show ?thesis by simp
qed

text \<open>
  The claim as stated fails on the link-layer record whose payload is the version byte
  alone: the structural decode raises, \<open>decode_npdu\<close> returns \<open>None\<close> and not the
  fault, and the source yields the record.
\<close>

theorem npdu_structural_fault_is_caught:
  "byte_at (link_data (PDU_obj (sample_pdu [0x01]))) 0 = Inr 0x01
   \<and> snd (NPDU_decode example_codec (PDU_obj (sample_pdu [0x01]))) = Inl DecodingError
   \<and> decode_npdu example_codec (PDU_obj (sample_pdu [0x01])) \<noteq> Inl DecodingError
   \<and> map_sum (\<lambda>e. e) snd (decode_npdu example_codec (PDU_obj (sample_pdu [0x01]))) = Inr None
   \<and> map_sum (\<lambda>e. e) length (decode_file example_codec False True [(43, 7, udp_frame [0x01])])
       = Inr 1"
  by (simp add: decode_file_def decode_packet_def frame_defs sample_defs example_defs
      layer_defs Let_def)

section \<open>Forwarded frames (C3)\<close>

text \<open>
  C3, as amended. The claim: for a forwarded frame whose decoded body carries an
  address, \<open>decode_lpdu\<close> makes that address the source of the record, with the
  prior source as its route annotation in route-aware mode and without it otherwise.
  What holds with route-aware mode off: \<open>decode_lpdu\<close> lifts nothing. It returns the
  record exactly as the function-specific decode produced it: the embedded address
  does not replace the source of the record and no route annotation is attached.
\<close>

theorem forwarded_not_lifted_when_route_aware_off:
  assumes "byte_at (pduData p) 0 = Inr 0x81"
    and "LPDU_decode c p = (left, Inr l)"
    and "bvll_pdu_types c (bvlciFunction l) = Some ForwardedNPDU"
    and "bvll_new c ForwardedNPDU = Inr b"
    and "bvll_decode c ForwardedNPDU l = (left', Inr l')"
  shows "decode_lpdu c False p = Inr (p\<lparr>pduData := left\<rparr>, LPDU_obj l', Some b)"
  using assms by (simp add: decode_lpdu_def Let_def)

theorem forwarded_not_lifted_when_route_aware_off_witness:
  "decode_lpdu example_codec False (sample_pdu forwarded_payload)
     = Inr (sample_pdu [0xC0, 0xA8, 0x00, 0x14, 0xBA, 0xC0, 0x01, 0x00, 0x10, 0x08],
            LPDU_obj \<lparr> pduData = [0x01, 0x00, 0x10, 0x08], pduSource = None,
                       pduDestination = None, bvlciFunction = 4,
                       bvlciAddress = Some forwarded_address \<rparr>,
            Some \<lparr> pduData = [], pduSource = None, pduDestination = None,
                   bvlciFunction = 4, bvlciAddress = None \<rparr>)"
proof -
  let ?l = "\<lparr> pduData = [0xC0, 0xA8, 0x00, 0x14, 0xBA, 0xC0, 0x01, 0x00, 0x10, 0x08],
              pduSource = Some sample_source, pduDestination = Some sample_destination,
              bvlciFunction = 4, bvlciAddress = None \<rparr>"
  let ?decoded = "\<lparr> pduData = [0x01, 0x00, 0x10, 0x08], pduSource = None,
                    pduDestination = None, bvlciFunction = 4,
                    bvlciAddress = Some forwarded_address \<rparr>"
  let ?fresh = "\<lparr> pduData = [], pduSource = None, pduDestination = None,
                  bvlciFunction = 4, bvlciAddress = None \<rparr>"
  have m: "byte_at (pduData (sample_pdu forwarded_payload)) 0 = Inr 0x81"
    by (simp add: byte_at_def sample_pdu_def forwarded_payload_def)
  have d: "LPDU_decode example_codec (sample_pdu forwarded_payload)
             = ([0xC0, 0xA8, 0x00, 0x14, 0xBA, 0xC0, 0x01, 0x00, 0x10, 0x08], Inr ?l)"
    by (simp add: example_defs sample_pdu_def forwarded_payload_def)
  have t: "bvll_pdu_types example_codec (bvlciFunction ?l) = Some ForwardedNPDU"
    by (simp add: example_defs)
  have n: "bvll_new example_codec ForwardedNPDU = Inr ?fresh"
    by (simp add: example_defs)
  have v: "bvll_decode example_codec ForwardedNPDU ?l = ([0x01, 0x00, 0x10, 0x08], Inr ?decoded)"
    by (simp add: example_defs forwarded_address_def)
  from forwarded_not_lifted_when_route_aware_off [OF m d t n v]
  show ?thesis
    by (simp add: sample_pdu_def forwarded_payload_def)
qed

text \<open>
  The claim as stated fails with route-aware mode off: the decoded body of the sample
  forwarded frame carries the address 192.168.0.20:47808, and that address is not the
  source of the record \<open>decode_lpdu\<close> returns.
\<close>

theorem forwarded_source_not_lifted_when_off:
  "map_sum (\<lambda>e. e)
       ((\<lambda>k. case k of LPDU_obj x \<Rightarrow> bvlciAddress x | PDU_obj q \<Rightarrow> None) \<circ> fst \<circ> snd)
       (decode_lpdu example_codec False (sample_pdu forwarded_payload))
     = Inr (Some forwarded_address)
   \<and> map_sum (\<lambda>e. e) (link_source \<circ> fst \<circ> snd)
         (decode_lpdu example_codec False (sample_pdu forwarded_payload))
       = Inr None
   \<and> None \<noteq> Some (Addr forwarded_address)"
  by (simp add: decode_lpdu_def byte_at_def example_defs sample_defs Let_def)

text \<open>
  With route-aware mode on, the address \<open>decode_lpdu\<close> tests and lifts is that of
  \<open>bpdu\<close>, the object of the constructor call \<open>atype()\<close>, and not that of the
  decoded record: when that object has no address, nothing is lifted, whatever address
  the decoded record carries. So it is with the stand-in codec on the sample frame.
\<close>

lemma forwarded_lift_reads_bare_variant:
  assumes "byte_at (pduData p) 0 = Inr 0x81"
    and "LPDU_decode c p = (left, Inr l)"
    and "bvll_pdu_types c (bvlciFunction l) = Some ForwardedNPDU"
    and "bvll_new c ForwardedNPDU = Inr b"
    and "bvll_decode c ForwardedNPDU l = (left', Inr l')"
    and "bvlciAddress b = None"
  shows "decode_lpdu c True p = Inr (p\<lparr>pduData := left\<rparr>, LPDU_obj l', Some b)"
  using assms by (simp add: decode_lpdu_def Let_def)

lemma forwarded_sample_not_lifted_when_on:
  "map_sum (\<lambda>e. e) (link_source \<circ> fst \<circ> snd)
     (decode_lpdu example_codec True (sample_pdu forwarded_payload)) = Inr None"
  by (simp add: decode_lpdu_def byte_at_def example_defs sample_defs Let_def)

section \<open>The marker and version checks (C10)\<close>




section \<open>The per-record source (C5, C8)\<close>

lemma decode_file_loop_eq:
  "decode_file_loop c ra i p =
     List.map_filter
       (\<lambda>(j, (len, ts, raw)).
          case decode_packet c ra raw of
            Inr (Some k) \<Rightarrow> Some \<lparr> pkt_object = k, pkt_number = j, pkt_timestamp = ts \<rparr>
          | _ \<Rightarrow> None)
       (List.enumerate (Suc i) p)"
proof (induction p arbitrary: i)
  case Nil
  show ?case by (simp add: map_filter_simps)
next
  case (Cons r p)
  obtain len ts raw where r: "r = (len, ts, raw)" by (cases r) auto
  show ?case
    by (simp add: r Cons.IH map_filter_simps split: sum.split option.split)
qed

lemma decode_file_full_loop_eq:
  "decode_file_full_loop c ra i p =
     List.map_filter
       (\<lambda>(j, (len, ts, raw)).
          case decode_packet_full c ra raw of
            Inr (Some k) \<Rightarrow> Some (k\<lparr>number := Some j, timestamp := Some ts\<rparr>)
          | _ \<Rightarrow> None)
       (List.enumerate (Suc i) p)"
proof (induction p arbitrary: i)
  case Nil
  show ?case by (simp add: map_filter_simps)
next
  case (Cons r p)
  obtain len ts raw where r: "r = (len, ts, raw)" by (cases r) auto
  show ?case
    by (simp add: r Cons.IH map_filter_simps split: sum.split option.split)
qed

lemma decode_file_expected: "decode_file c ra True p = Inr (expected_yield c ra p)"
  by (simp add: decode_file_def expected_yield_def decode_file_loop_eq)

lemma decode_file_full_expected:
  "decode_file_full c ra True p = Inr (expected_yield_full c ra p)"
  by (simp add: decode_file_full_def expected_yield_full_def decode_file_full_loop_eq)

text \<open>What \<open>decode_packet_full\<close> returns has no number and no timestamp yet.\<close>

lemma decode_packet_full_unstamped:
  "decode_packet_full c ra raw = Inr (Some k) \<Longrightarrow> number k = None \<and> timestamp k = None"
  by (auto simp: decode_packet_full_def bnd_def Let_def
      split: sum.splits option.splits prod.splits link.splits if_splits)

lemma decode_file_full_loop_elem:
  "y \<in> set (decode_file_full_loop c ra i p) \<Longrightarrow>
     \<exists>j len ts raw k. j < length p \<and> p ! j = (len, ts, raw) \<and>
        decode_packet_full c ra raw = Inr (Some k) \<and>
        y = k\<lparr>number := Some (i + j + 1), timestamp := Some ts\<rparr>"
proof (induction p arbitrary: i)
  case Nil
  then show ?case by simp
next
  case (Cons r p)
  obtain len ts raw where r: "r = (len, ts, raw)" by (cases r) auto
  show ?case
  proof (cases "\<exists>k. decode_packet_full c ra raw = Inr (Some k) \<and>
                   y = k\<lparr>number := Some (i + 1), timestamp := Some ts\<rparr>")
    case True
    then obtain k where "decode_packet_full c ra raw = Inr (Some k)"
      "y = k\<lparr>number := Some (i + 1), timestamp := Some ts\<rparr>" by blast
    then have "0 < length (r # p) \<and> (r # p) ! 0 = (len, ts, raw) \<and>
        decode_packet_full c ra raw = Inr (Some k) \<and>
        y = k\<lparr>number := Some (i + 0 + 1), timestamp := Some ts\<rparr>"
      by (simp add: r)
    then show ?thesis by blast
  next
    case False
    with Cons.prems have "y \<in> set (decode_file_full_loop c ra (i + 1) p)"
      by (auto simp: r split: sum.splits option.splits)
    from Cons.IH [OF this] obtain j len' ts' raw' k where
      j: "j < length p" "p ! j = (len', ts', raw')"
         "decode_packet_full c ra raw' = Inr (Some k)"
         "y = k\<lparr>number := Some (i + 1 + j + 1), timestamp := Some ts'\<rparr>"
      by blast
    then have "Suc j < length (r # p) \<and> (r # p) ! Suc j = (len', ts', raw') \<and>
        decode_packet_full c ra raw' = Inr (Some k) \<and>
        y = k\<lparr>number := Some (i + Suc j + 1), timestamp := Some ts'\<rparr>"
      by simp
    then show ?thesis by blast
  qed
qed

text \<open>
  C5, as amended. The claim: no field of a DecodedPacket, number and timestamp
  included, is reassigned between the return of \<open>decode_packet_full\<close> and the yield.
  What holds: \<open>decode_packet_full\<close> returns the record with neither number nor
  timestamp; \<open>decode_file_full\<close> then assigns these two fields, the 1-based index of
  the record and its timestamp, and yields it; the four layer fields are as
  \<open>decode_packet_full\<close> returned them.
\<close>

theorem decode_file_full_assigns_number_and_timestamp:
  assumes "decode_file_full c ra True p = Inr ys" and "y \<in> set ys"
  shows "\<exists>j len ts raw k.
           j < length p \<and> p ! j = (len, ts, raw)
           \<and> decode_packet_full c ra raw = Inr (Some k)
           \<and> number k = None \<and> timestamp k = None
           \<and> y = k\<lparr>number := Some (j + 1), timestamp := Some ts\<rparr>
           \<and> pdu y = pdu k \<and> lpdu y = lpdu k \<and> npdu y = npdu k \<and> apdu y = apdu k"
proof -
  from assms have "y \<in> set (decode_file_full_loop c ra 0 p)"
    by (simp add: decode_file_full_def)
  from decode_file_full_loop_elem [OF this] obtain j len ts raw k where
    j: "j < length p" "p ! j = (len, ts, raw)"
       "decode_packet_full c ra raw = Inr (Some k)"
       "y = k\<lparr>number := Some (0 + j + 1), timestamp := Some ts\<rparr>"
    by blast
  from j(3) have u: "number k = None \<and> timestamp k = None"
    by (rule decode_packet_full_unstamped)
  from j u have "j < length p \<and> p ! j = (len, ts, raw)
           \<and> decode_packet_full c ra raw = Inr (Some k)
           \<and> number k = None \<and> timestamp k = None
           \<and> y = k\<lparr>number := Some (j + 1), timestamp := Some ts\<rparr>
           \<and> pdu y = pdu k \<and> lpdu y = lpdu k \<and> npdu y = npdu k \<and> apdu y = apdu k"
    by simp
  then show ?thesis by blast
qed

theorem decode_file_full_assigns_number_and_timestamp_witness:
  "decode_file_full example_codec False True [(43, 7, udp_frame [0x00])]
     = Inr [\<lparr> pdu = sample_pdu [0x00], lpdu = None, npdu = None, apdu = None,
              number = Some 1, timestamp = Some 7 \<rparr>]
   \<and> (\<exists>j len ts raw k.
         j < length [(43 :: nat, 7 :: timestamp, udp_frame [0x00])]
         \<and> [(43 :: nat, 7 :: timestamp, udp_frame [0x00])] ! j = (len, ts, raw)
         \<and> decode_packet_full example_codec False raw = Inr (Some k)
         \<and> number k = None \<and> timestamp k = None
         \<and> \<lparr> pdu = sample_pdu [0x00], lpdu = None, npdu = None, apdu = None,
               number = Some 1, timestamp = Some 7 \<rparr>
             = k\<lparr>number := Some (j + 1), timestamp := Some ts\<rparr>)"
proof -
  let ?y = "\<lparr> pdu = sample_pdu [0x00], lpdu = None, npdu = None, apdu = None,
              number = Some 1, timestamp = Some 7 \<rparr>"
  have f: "decode_file_full example_codec False True [(43, 7, udp_frame [0x00])] = Inr [?y]"
    by (simp add: decode_file_full_def decode_packet_full_def frame_defs sample_defs
        layer_defs Let_def)
  have m: "?y \<in> set [?y]"
    by simp
  from decode_file_full_assigns_number_and_timestamp [OF f m] f
  show ?thesis by blast
qed

text \<open>
  The claim as stated fails on a capture of one record: the record
  \<open>decode_packet_full\<close> returns has no number and no timestamp, the one
  \<open>decode_file_full\<close> yields has number 1 and the timestamp of the record.
\<close>

theorem decoded_packet_reassigned_before_yield:
  "map_sum (\<lambda>e. e) (map_option number) (decode_packet_full example_codec False (udp_frame [0x00]))
     = Inr (Some None)
   \<and> map_sum (\<lambda>e. e) (map_option timestamp)
        (decode_packet_full example_codec False (udp_frame [0x00])) = Inr (Some None)
   \<and> map_sum (\<lambda>e. e) (map number)
        (decode_file_full example_codec False True [(43, 7, udp_frame [0x00])]) = Inr [Some 1]
   \<and> map_sum (\<lambda>e. e) (map timestamp)
        (decode_file_full example_codec False True [(43, 7, udp_frame [0x00])]) = Inr [Some 7]"
  by (simp add: decode_file_full_def decode_packet_full_def frame_defs sample_defs
      layer_defs Let_def)

text \<open>
  C8. For every sequence of capture records the source yields exactly the records whose
  decode returns a packet, in order, each with its 1-based index and its timestamp: a
  record that decodes to \<open>None\<close> or raises is skipped and the sequence goes on. In
  particular, of three records of which the first and third decode and the middle one
  does not, it yields two, numbered 1 and 3. This holds for both sources.
\<close>

theorem decode_file_skips_and_numbers:
  "decode_file c ra True p = Inr (expected_yield c ra p)
   \<and> decode_file_full c ra True p = Inr (expected_yield_full c ra p)
   \<and> (decode_packet c ra raw1 = Inr (Some k1) \<longrightarrow>
        (\<forall>k. decode_packet c ra raw2 \<noteq> Inr (Some k)) \<longrightarrow>
        decode_packet c ra raw3 = Inr (Some k3) \<longrightarrow>
        decode_file c ra True [(len1, ts1, raw1), (len2, ts2, raw2), (len3, ts3, raw3)]
          = Inr [\<lparr> pkt_object = k1, pkt_number = 1, pkt_timestamp = ts1 \<rparr>,
                 \<lparr> pkt_object = k3, pkt_number = 3, pkt_timestamp = ts3 \<rparr>])
   \<and> (decode_packet_full c ra raw1 = Inr (Some r1) \<longrightarrow>
        (\<forall>k. decode_packet_full c ra raw2 \<noteq> Inr (Some k)) \<longrightarrow>
        decode_packet_full c ra raw3 = Inr (Some r3) \<longrightarrow>
        decode_file_full c ra True [(len1, ts1, raw1), (len2, ts2, raw2), (len3, ts3, raw3)]
          = Inr [r1\<lparr>number := Some 1, timestamp := Some ts1\<rparr>,
                 r3\<lparr>number := Some 3, timestamp := Some ts3\<rparr>])"
proof -
  have a: "decode_packet c ra raw1 = Inr (Some k1) \<Longrightarrow>
        (\<forall>k. decode_packet c ra raw2 \<noteq> Inr (Some k)) \<Longrightarrow>
        decode_packet c ra raw3 = Inr (Some k3) \<Longrightarrow>
        decode_file c ra True [(len1, ts1, raw1), (len2, ts2, raw2), (len3, ts3, raw3)]
          = Inr [\<lparr> pkt_object = k1, pkt_number = 1, pkt_timestamp = ts1 \<rparr>,
                 \<lparr> pkt_object = k3, pkt_number = 3, pkt_timestamp = ts3 \<rparr>]"
    by (simp add: decode_file_def split: sum.split option.split)
  have b: "decode_packet_full c ra raw1 = Inr (Some r1) \<Longrightarrow>
        (\<forall>k. decode_packet_full c ra raw2 \<noteq> Inr (Some k)) \<Longrightarrow>
        decode_packet_full c ra raw3 = Inr (Some r3) \<Longrightarrow>
        decode_file_full c ra True [(len1, ts1, raw1), (len2, ts2, raw2), (len3, ts3, raw3)]
          = Inr [r1\<lparr>number := Some 1, timestamp := Some ts1\<rparr>,
                 r3\<lparr>number := Some 3, timestamp := Some ts3\<rparr>]"
    by (simp add: decode_file_full_def split: sum.split option.split)
  from a b decode_file_expected [of c ra p] decode_file_full_expected [of c ra p]
  show ?thesis by blast
qed


theorem decode_file_skips_and_numbers_witness:
  "decode_packet example_codec False (udp_frame bare_bvll_payload) = Inl IndexError
   \<and> decode_file example_codec False True three_records
       = Inr [\<lparr> pkt_object =
                  APDU_obj \<lparr> pduData = [0x08], pduSource = Some sample_source,
                             pduDestination = Some sample_destination,
                             apduClass = UnconfirmedRequestPDU, apduSequence = True \<rparr>,
                pkt_number = 1, pkt_timestamp = 1 \<rparr>,
              \<lparr> pkt_object =
                  APDU_obj \<lparr> pduData = [0x08], pduSource = Some sample_source,
                             pduDestination = Some sample_destination,
                             apduClass = UnconfirmedRequestPDU, apduSequence = True \<rparr>,
                pkt_number = 3, pkt_timestamp = 3 \<rparr>]
   \<and> map_sum (\<lambda>e. e) (map number) (decode_file_full example_codec False True three_records)
       = Inr [Some 1, Some 3]
   \<and> expected_yield example_codec False three_records
       = [\<lparr> pkt_object =
                  APDU_obj \<lparr> pduData = [0x08], pduSource = Some sample_source,
                             pduDestination = Some sample_destination,
                             apduClass = UnconfirmedRequestPDU, apduSequence = True \<rparr>,
                pkt_number = 1, pkt_timestamp = 1 \<rparr>,
              \<lparr> pkt_object =
                  APDU_obj \<lparr> pduData = [0x08], pduSource = Some sample_source,
                             pduDestination = Some sample_destination,
                             apduClass = UnconfirmedRequestPDU, apduSequence = True \<rparr>,
                pkt_number = 3, pkt_timestamp = 3 \<rparr>]"
proof -
  let ?a = "\<lparr> pduData = [0x08], pduSource = Some sample_source,
              pduDestination = Some sample_destination,
              apduClass = UnconfirmedRequestPDU, apduSequence = True \<rparr>"
  let ?r = "\<lparr> pdu = sample_pdu [0x01, 0x00, 0x10, 0x08],
              lpdu = Some \<lparr> pduData = [0x10, 0x08],
                            pduSource = Some sample_source,
                            pduDestination = Some sample_destination,
                            bvlciFunction = 10, bvlciAddress = None \<rparr>,
              npdu = Some \<lparr> pduData = [0x08], pduSource = Some sample_source,
                            pduDestination = Some sample_destination,
                            npduNetMessage = None, npduSADR = None, npduDADR = None \<rparr>,
              apdu = Some ?a, number = None, timestamp = None \<rparr>"
  have k1: "decode_packet example_codec False (udp_frame unicast_payload)
              = Inr (Some (APDU_obj ?a))"
    by (simp add: decode_packet_def frame_defs sample_defs example_defs layer_defs Let_def)
  have k2: "decode_packet example_codec False (udp_frame bare_bvll_payload) = Inl IndexError"
    by (simp add: decode_packet_def frame_defs sample_defs example_defs layer_defs Let_def)
  then have n2: "\<forall>k. decode_packet example_codec False (udp_frame bare_bvll_payload)
                     \<noteq> Inr (Some k)"
    by simp
  have r1: "decode_packet_full example_codec False (udp_frame unicast_payload)
              = Inr (Some ?r)"
    by (simp add: decode_packet_full_def frame_defs sample_defs example_defs layer_defs
        Let_def)
  have r2: "decode_packet_full example_codec False (udp_frame bare_bvll_payload)
              = Inl IndexError"
    by (simp add: decode_packet_full_def frame_defs sample_defs example_defs layer_defs
        Let_def)
  then have m2: "\<forall>k. decode_packet_full example_codec False (udp_frame bare_bvll_payload)
                     \<noteq> Inr (Some k)"
    by simp
  note inst =
    decode_file_skips_and_numbers
      [where c = example_codec and ra = False and p = three_records
         and ?raw1.0 = "udp_frame unicast_payload" and ?k1.0 = "APDU_obj ?a"
         and ?raw2.0 = "udp_frame bare_bvll_payload"
         and ?raw3.0 = "udp_frame unicast_payload" and ?k3.0 = "APDU_obj ?a"
         and ?len1.0 = 50 and ?ts1.0 = 1 and ?len2.0 = 46 and ?ts2.0 = 2
         and ?len3.0 = 50 and ?ts3.0 = 3 and ?r1.0 = ?r and ?r3.0 = ?r]
  from inst k1 n2 have f: "decode_file example_codec False True three_records
       = Inr [\<lparr> pkt_object = APDU_obj ?a, pkt_number = 1, pkt_timestamp = 1 \<rparr>,
              \<lparr> pkt_object = APDU_obj ?a, pkt_number = 3, pkt_timestamp = 3 \<rparr>]"
    unfolding three_records_def by blast
  from inst r1 m2 have g: "decode_file_full example_codec False True three_records
       = Inr [?r\<lparr>number := Some 1, timestamp := Some 1\<rparr>,
              ?r\<lparr>number := Some 3, timestamp := Some 3\<rparr>]"
    unfolding three_records_def by blast
  from inst f have e: "expected_yield example_codec False three_records
       = [\<lparr> pkt_object = APDU_obj ?a, pkt_number = 1, pkt_timestamp = 1 \<rparr>,
          \<lparr> pkt_object = APDU_obj ?a, pkt_number = 3, pkt_timestamp = 3 \<rparr>]"
    by simp
  from k2 f g e show ?thesis
    by simp
qed


text \<open>
  A frame whose link-layer decode fails is caught in \<open>decode_lpdu\<close>, which hands
  the PDU back as the failed decode left it. With the stand-in codec, on the UDP payload
  that is the virtual-link marker alone, the decode has read that byte: the version
  check of \<open>decode_npdu\<close> then raises, and the source skips the record.
\<close>

lemma rejected_bvll_frame_is_skipped:
  "snd (LPDU_decode example_codec (sample_pdu [0x81])) = Inl DecodingError
   \<and> decode_packet example_codec False (udp_frame [0x81]) = Inl IndexError
   \<and> decode_file example_codec False True [(43, 7, udp_frame [0x81])] = Inr []"
  by (simp add: decode_file_def decode_packet_def frame_defs sample_defs example_defs
      layer_defs Let_def)

section \<open>Tracers (C9)\<close>

declare trace_tracers.simps [simp del]

text \<open>
  One pass of the inner loop from index \<open>i\<close>: the list keeps its length, the tracers
  before \<open>i\<close> are untouched, and each tracer from \<open>i\<close> on has handled the packet
  in its current state and, if that left it without a state, has been replaced by a
  fresh instance of its class.
\<close>

lemma trace_tracers_result:
  "trace_tracers tracers k i current = Inr current' \<Longrightarrow>
     length current' = length current
     \<and> (\<forall>j < i. current' ! j = current ! j)
     \<and> (\<forall>j. i \<le> j \<and> j < length current \<and> j < length tracers \<longrightarrow>
          (\<exists>fn t. current_state (current ! j) = Some fn
             \<and> call_state (tracers ! j) fn (current ! j) k = Inr t
             \<and> current' ! j =
                 (if current_state t = None then Tracer_init (tracers ! j) None else t)))"
proof (induction tracers k i current arbitrary: current' rule: trace_tracers.induct)
  case (1 tracers k i current)
  show ?case
  proof (cases "i < length current \<and> i < length tracers")
    case False
    with "1.prems" have "current' = current"
      by (simp add: trace_tracers.simps)
    with False show ?thesis by auto
  next
    case True
    from "1.prems" True obtain fn where fn: "current_state (current ! i) = Some fn"
      by (subst (asm) trace_tracers.simps) (auto split: option.splits)
    from "1.prems" True fn obtain t where
      t: "call_state (tracers ! i) fn (current ! i) k = Inr t"
      by (subst (asm) trace_tracers.simps) (auto split: sum.splits)
    define new where
      "new = (if current_state t = None then Tracer_init (tracers ! i) None else t)"
    from "1.prems" True fn t have
      rec: "trace_tracers tracers k (i + 1) (current[i := new]) = Inr current'"
      by (subst (asm) trace_tracers.simps) (auto simp: new_def split: if_splits)
    have IH: "length current' = length (current[i := new])
       \<and> (\<forall>j < i + 1. current' ! j = current[i := new] ! j)
       \<and> (\<forall>j. i + 1 \<le> j \<and> j < length (current[i := new]) \<and> j < length tracers \<longrightarrow>
            (\<exists>fn t. current_state (current[i := new] ! j) = Some fn
               \<and> call_state (tracers ! j) fn (current[i := new] ! j) k = Inr t
               \<and> current' ! j =
                   (if current_state t = None then Tracer_init (tracers ! j) None else t)))"
    proof (cases "current_state t = None")
      case True
      with rec have "trace_tracers tracers k (i + 1)
                       (current[i := Tracer_init (tracers ! i) None]) = Inr current'"
        by (simp add: new_def)
      from "1.IH"(1) [OF \<open>i < length current \<and> i < length tracers\<close> fn t True this]
      show ?thesis by (simp add: new_def True)
    next
      case False
      with rec have "trace_tracers tracers k (i + 1) (current[i := t]) = Inr current'"
        by (simp add: new_def)
      from "1.IH"(2) [OF \<open>i < length current \<and> i < length tracers\<close> fn t False this]
      show ?thesis by (simp add: new_def False)
    qed
    have len: "length current' = length current"
      using IH by simp
    have before: "\<forall>j < i. current' ! j = current ! j"
      using IH by simp
    have at: "current' ! i = new"
      using IH True by simp
    have after: "\<And>j. i < j \<Longrightarrow> j < length current \<Longrightarrow> j < length tracers \<Longrightarrow>
          \<exists>fn t. current_state (current ! j) = Some fn
             \<and> call_state (tracers ! j) fn (current ! j) k = Inr t
             \<and> current' ! j =
                 (if current_state t = None then Tracer_init (tracers ! j) None else t)"
    proof -
      fix j
      assume j: "i < j" "j < length current" "j < length tracers"
      then have "i + 1 \<le> j \<and> j < length (current[i := new]) \<and> j < length tracers"
        by simp
      with IH have "\<exists>fn t. current_state (current[i := new] ! j) = Some fn
               \<and> call_state (tracers ! j) fn (current[i := new] ! j) k = Inr t
               \<and> current' ! j =
                   (if current_state t = None then Tracer_init (tracers ! j) None else t)"
        by blast
      with j show "\<exists>fn t. current_state (current ! j) = Some fn
             \<and> call_state (tracers ! j) fn (current ! j) k = Inr t
             \<and> current' ! j =
                 (if current_state t = None then Tracer_init (tracers ! j) None else t)"
        by simp
    qed
    have here: "\<exists>fn t. current_state (current ! i) = Some fn
             \<and> call_state (tracers ! i) fn (current ! i) k = Inr t
             \<and> current' ! i =
                 (if current_state t = None then Tracer_init (tracers ! i) None else t)"
      using fn t at by (auto simp: new_def)
    have from_i: "\<forall>j. i \<le> j \<and> j < length current \<and> j < length tracers \<longrightarrow>
          (\<exists>fn t. current_state (current ! j) = Some fn
             \<and> call_state (tracers ! j) fn (current ! j) k = Inr t
             \<and> current' ! j =
                 (if current_state t = None then Tracer_init (tracers ! j) None else t))"
    proof (intro allI impI)
      fix j
      assume j: "i \<le> j \<and> j < length current \<and> j < length tracers"
      show "\<exists>fn t. current_state (current ! j) = Some fn
             \<and> call_state (tracers ! j) fn (current ! j) k = Inr t
             \<and> current' ! j =
                 (if current_state t = None then Tracer_init (tracers ! j) None else t)"
      proof (cases "j = i")
        case True
        from here show ?thesis unfolding True .
      next
        case False
        with j have "i < j" by simp
        with j after show ?thesis by blast
      qed
    qed
    from len before from_i show ?thesis by blast
  qed
qed

lemma Tracer_init_state: "current_state (Tracer_init cls None) = Some (start cls)"
  by (simp add: Tracer_init_def Tracer_next_def)

text \<open>
  The same for one pass of the inner loop over the whole list: a tracer that its
  handler leaves without a current state is the fresh instance afterwards, and a pass
  that finds the fresh instance calls \<open>start\<close> on it.
\<close>

lemma trace_tracers_replaces:
  assumes "j < length current" and "j < length tracers"
    and "current_state (current ! j) = Some fn"
    and "call_state (tracers ! j) fn (current ! j) k = Inr t"
    and "current_state t = None"
    and "trace_tracers tracers k 0 current = Inr current'"
  shows "current' ! j = Tracer_init (tracers ! j) None"
proof -
  from trace_tracers_result [OF assms(6)] assms(1,2)
  obtain fn' t' where
    s: "current_state (current ! j) = Some fn'"
       "call_state (tracers ! j) fn' (current ! j) k = Inr t'"
       "current' ! j =
          (if current_state t' = None then Tracer_init (tracers ! j) None else t')"
    by blast
  from s assms(3,4,5) show ?thesis
    by simp
qed

lemma trace_tracers_from_start:
  assumes "j < length current" and "j < length tracers"
    and "current ! j = Tracer_init (tracers ! j) None"
    and "trace_tracers tracers k 0 current = Inr current'"
  shows "\<exists>t. call_state (tracers ! j) (start (tracers ! j))
               (Tracer_init (tracers ! j) None) k = Inr t
             \<and> current' ! j =
                 (if current_state t = None then Tracer_init (tracers ! j) None else t)"
proof -
  from trace_tracers_result [OF assms(4)] assms(1,2)
  obtain fn t where
    s: "current_state (current ! j) = Some fn"
       "call_state (tracers ! j) fn (current ! j) k = Inr t"
       "current' ! j =
          (if current_state t = None then Tracer_init (tracers ! j) None else t)"
    by blast
  from s(1) assms(3) have "fn = start (tracers ! j)"
    by (simp add: Tracer_init_state)
  with s(2,3) assms(3) show ?thesis
    by simp
qed

subsection \<open>\<open>trace\<close> record by record\<close>

text \<open>
  What \<open>decode_file\<close> yields for a capture followed by more records is what it
  yields for the capture, followed by what it yields for the rest, numbered on.
\<close>

lemma decode_file_loop_append:
  "decode_file_loop c ra i (p @ q)
     = decode_file_loop c ra i p @ decode_file_loop c ra (i + length p) q"
proof (induction p arbitrary: i)
  case Nil
  show ?case by simp
next
  case (Cons r p)
  obtain len ts raw where r: "r = (len, ts, raw)" by (cases r) auto
  from Cons.IH [of "i + 1"] show ?case
    by (simp add: r split: sum.split option.split)
qed

lemma trace_loop_append:
  "trace_loop tracers (ks @ ks') current
     = (case trace_loop tracers ks current of
          Inl err \<Rightarrow> Inl err
        | Inr current' \<Rightarrow> trace_loop tracers ks' current')"
  by (induction ks arbitrary: current) (simp_all split: sum.split)

lemma trace_loop_length:
  "trace_loop tracers ks current = Inr current' \<Longrightarrow> length current' = length current"
proof (induction ks arbitrary: current)
  case Nil
  then show ?case by simp
next
  case (Cons k ks)
  from Cons.prems obtain mid where
    m: "trace_tracers tracers k 0 current = Inr mid"
    and r: "trace_loop tracers ks mid = Inr current'"
    by (auto split: sum.splits)
  from trace_tracers_result [OF m] Cons.IH [OF r] show ?case by simp
qed

lemma trace_length:
  "trace c ra pylibpcap p tracers = Inr current \<Longrightarrow> length current = length tracers"
  by (cases pylibpcap) (auto simp: trace_def decode_file_def dest: trace_loop_length)

text \<open>
  \<open>trace\<close> over a capture and one more record that decodes to a packet: the state
  \<open>trace\<close> leaves after the capture, then one pass of the inner loop with that packet,
  numbered by its position in the capture.
\<close>

lemma trace_one_more_record:
  assumes "decode_packet c ra raw = Inr (Some obj)"
  shows "trace c ra True (p @ [(len, ts, raw)]) tracers
           = (case trace c ra True p tracers of
                Inl err \<Rightarrow> Inl err
              | Inr current \<Rightarrow>
                  trace_tracers tracers
                    \<lparr> pkt_object = obj, pkt_number = length p + 1, pkt_timestamp = ts \<rparr>
                    0 current)"
proof -
  have y: "decode_file_loop c ra 0 (p @ [(len, ts, raw)])
             = decode_file_loop c ra 0 p
               @ [\<lparr> pkt_object = obj, pkt_number = length p + 1, pkt_timestamp = ts \<rparr>]"
    using assms by (simp add: decode_file_loop_append)
  have one: "trace_loop tracers [k] cur = trace_tracers tracers k 0 cur" for k cur
    by (simp split: sum.split)
  show ?thesis
    unfolding trace_def decode_file_def Let_def
    by (simp only: if_False not_True_eq_False bnd_Inr y trace_loop_append one)
qed

text \<open>
  C9. Let \<open>trace\<close> have run over a capture, and let the next record decode to a
  packet (packet N). If the handler of a tracer leaves it without a current state
  while handling that packet, then after \<open>trace\<close> has run over the capture with
  that record, the tracer is a fresh instance of its class, in the state \<open>start\<close>;
  and when a further record decodes to a packet (packet N+1), \<open>trace\<close> hands that
  packet to the fresh instance in its initial state.
\<close>

theorem trace_restarts_terminated_tracer:
  assumes "trace c ra True p tracers = Inr current"
    and "decode_packet c ra raw = Inr (Some obj)"
    and "j < length tracers"
    and "current_state (current ! j) = Some fn"
    and "call_state (tracers ! j) fn (current ! j)
           \<lparr> pkt_object = obj, pkt_number = length p + 1, pkt_timestamp = ts \<rparr> = Inr t"
    and "current_state t = None"
    and "trace c ra True (p @ [(len, ts, raw)]) tracers = Inr current'"
  shows "current' ! j = Tracer_init (tracers ! j) None
         \<and> current_state (current' ! j) = Some (start (tracers ! j))
         \<and> (\<forall>len' ts' raw' obj' current''.
               decode_packet c ra raw' = Inr (Some obj') \<longrightarrow>
               trace c ra True (p @ [(len, ts, raw), (len', ts', raw')]) tracers
                 = Inr current'' \<longrightarrow>
               (\<exists>t'. call_state (tracers ! j) (start (tracers ! j))
                        (Tracer_init (tracers ! j) None)
                        \<lparr> pkt_object = obj', pkt_number = length p + 2,
                          pkt_timestamp = ts' \<rparr> = Inr t'
                  \<and> current'' ! j =
                      (if current_state t' = None then Tracer_init (tracers ! j) None
                       else t')))"
proof -
  let ?k = "\<lparr> pkt_object = obj, pkt_number = length p + 1, pkt_timestamp = ts \<rparr>"
  from trace_length [OF assms(1)] assms(3) have j: "j < length current"
    by simp
  from trace_length [OF assms(7)] assms(3) have j': "j < length current'"
    by simp
  have e: "trace c ra True (p @ [(len, ts, raw)]) tracers = trace_tracers tracers ?k 0 current"
    by (simp only: trace_one_more_record [OF assms(2)] assms(1) sum.case)
  have step: "trace_tracers tracers ?k 0 current = Inr current'"
    by (rule trans [OF e [symmetric] assms(7)])
  have new: "current' ! j = Tracer_init (tracers ! j) None"
    by (rule trace_tracers_replaces [OF j assms(3,4,5,6) step])
  then have st: "current_state (current' ! j) = Some (start (tracers ! j))"
    by (simp only: Tracer_init_state)
  have nxt: "\<forall>len' ts' raw' obj' current''.
               decode_packet c ra raw' = Inr (Some obj') \<longrightarrow>
               trace c ra True (p @ [(len, ts, raw), (len', ts', raw')]) tracers
                 = Inr current'' \<longrightarrow>
               (\<exists>t'. call_state (tracers ! j) (start (tracers ! j))
                        (Tracer_init (tracers ! j) None)
                        \<lparr> pkt_object = obj', pkt_number = length p + 2,
                          pkt_timestamp = ts' \<rparr> = Inr t'
                  \<and> current'' ! j =
                      (if current_state t' = None then Tracer_init (tracers ! j) None
                       else t'))"
  proof (intro allI impI)
    fix len' ts' raw' obj' current''
    assume d: "decode_packet c ra raw' = Inr (Some obj')"
      and r: "trace c ra True (p @ [(len, ts, raw), (len', ts', raw')]) tracers
                = Inr current''"
    let ?k' = "\<lparr> pkt_object = obj', pkt_number = length p + 2, pkt_timestamp = ts' \<rparr>"
    have num: "length (p @ [(len, ts, raw)]) + 1 = length p + 2"
      by simp
    have e1: "trace c ra True ((p @ [(len, ts, raw)]) @ [(len', ts', raw')]) tracers
                = trace_tracers tracers ?k' 0 current'"
      by (simp only: trace_one_more_record [OF d] assms(7) sum.case num)
    from r have e2: "trace c ra True ((p @ [(len, ts, raw)]) @ [(len', ts', raw')]) tracers
                       = Inr current''"
      by simp
    have step': "trace_tracers tracers ?k' 0 current' = Inr current''"
      by (rule trans [OF e1 [symmetric] e2])
    show "\<exists>t'. call_state (tracers ! j) (start (tracers ! j))
                        (Tracer_init (tracers ! j) None) ?k' = Inr t'
                  \<and> current'' ! j =
                      (if current_state t' = None then Tracer_init (tracers ! j) None
                       else t')"
      by (rule trace_tracers_from_start [OF j' assms(3) new step'])
  qed
  from new st nxt show ?thesis
    by (intro conjI)
qed

theorem trace_restarts_terminated_tracer_witness:
  "trace example_codec False True [(50, 1, udp_frame unicast_payload)] [example_tracer]
     = Inr [\<lparr> current_state = Some Seen, tracer_vars = 1 \<rparr>]
   \<and> trace example_codec False True
       [(50, 1, udp_frame unicast_payload), (50, 2, udp_frame unicast_payload)]
       [example_tracer]
     = Inr [\<lparr> current_state = Some Start, tracer_vars = 0 \<rparr>]
   \<and> Tracer_init example_tracer None = \<lparr> current_state = Some Start, tracer_vars = 0 \<rparr>
   \<and> trace example_codec False True
       [(50, 1, udp_frame unicast_payload), (50, 2, udp_frame unicast_payload),
        (50, 3, udp_frame unicast_payload)]
       [example_tracer]
     = Inr [\<lparr> current_state = Some Seen, tracer_vars = 1 \<rparr>]"
proof -
  let ?a = "\<lparr> pduData = [0x08], pduSource = Some sample_source,
              pduDestination = Some sample_destination,
              apduClass = UnconfirmedRequestPDU, apduSequence = True \<rparr>"
  let ?r1 = "(50 :: nat, 1 :: timestamp, udp_frame unicast_payload)"
  let ?cur = "[\<lparr> current_state = Some Seen, tracer_vars = 1 :: nat \<rparr>]"
  let ?new = "\<lparr> current_state = Some Start, tracer_vars = 0 :: nat \<rparr>"
  let ?gone = "\<lparr> current_state = None :: example_state option, tracer_vars = 2 :: nat \<rparr>"
  have d: "decode_packet example_codec False (udp_frame unicast_payload)
             = Inr (Some (APDU_obj ?a))"
    by (simp add: decode_packet_def frame_defs sample_defs example_defs layer_defs Let_def)
  have one: "trace example_codec False True [?r1] [example_tracer] = Inr ?cur"
    by (simp add: trace_def decode_file_def d trace_tracers.simps example_tracer_def
        Tracer_next_def Tracer_init_def)
  have two: "trace example_codec False True
               ([?r1] @ [(50, 2, udp_frame unicast_payload)]) [example_tracer] = Inr [?new]"
    by (simp add: trace_def decode_file_def d trace_tracers.simps example_tracer_def
        Tracer_next_def Tracer_init_def)
  have three: "trace example_codec False True
                 ([?r1] @ [(50, 2, udp_frame unicast_payload), (50, 3, udp_frame unicast_payload)])
                 [example_tracer] = Inr ?cur"
    by (simp add: trace_def decode_file_def d trace_tracers.simps example_tracer_def
        Tracer_next_def Tracer_init_def)
  have j: "0 < length [example_tracer]"
    by simp
  have s: "current_state (?cur ! 0) = Some Seen"
    by simp
  have h: "call_state ([example_tracer] ! 0) Seen (?cur ! 0)
             \<lparr> pkt_object = APDU_obj ?a, pkt_number = length [?r1] + 1, pkt_timestamp = 2 \<rparr>
           = Inr ?gone"
    by (simp add: example_tracer_def Tracer_next_def)
  have g: "current_state ?gone = None"
    by simp
  have i: "Tracer_init example_tracer None = ?new"
    by (simp add: Tracer_init_def Tracer_next_def example_tracer_def)
  note restart = trace_restarts_terminated_tracer [OF one d j s h g two]
  note fresh = restart [THEN conjunct1]
  note handled = restart [THEN conjunct2, THEN conjunct2, rule_format, OF d three]
  from one two three i fresh handled show ?thesis
    by simp
qed

text \<open>\<open>trace\<close> runs the outer loop over what \<open>decode_file\<close> yields.\<close>

lemma trace_runs_trace_loop:
  "trace c ra True p tracers =
     trace_loop tracers (expected_yield c ra p)
       (map (\<lambda>traceClass. Tracer_init traceClass None) tracers)"
  by (simp add: trace_def decode_file_expected)

lemma trace_three_records:
  "trace example_codec False True three_records [example_tracer]
     = Inr [\<lparr> current_state = Some Start, tracer_vars = 0 \<rparr>]"
proof -
  have "decode_file example_codec False True three_records
          = Inr (decode_file_loop example_codec False 0 three_records)"
    by (simp add: decode_file_def)
  moreover have "length (decode_file_loop example_codec False 0 three_records) = 2"
    by (simp add: three_records_def decode_packet_def frame_defs sample_defs example_defs
        layer_defs Let_def)
  then obtain k1 k2 where
    "decode_file_loop example_codec False 0 three_records = [k1, k2]"
    by (auto simp: length_Suc_conv numeral_2_eq_2)
  ultimately show ?thesis
    by (simp add: trace_def trace_tracers.simps example_tracer_def Tracer_next_def
        Tracer_init_def)
qed

end
